theory Spec2Isabelle
  imports Main
begin

section \<open>JavaScript values\<close>

text \<open>
  The program under study is the content script \<^verbatim>\<open>content.js\<close> that the two installers
  carry as a string: the richer one in \<^verbatim>\<open>installer_script.py\<close> (class
  \<^verbatim>\<open>LinkedInJobInsights\<close>, lines 66-317) and the shorter one in
  \<^verbatim>\<open>exe_installer_script.py\<close> (lines 185-320). Definitions of the richer script keep
  the source's names; those of the shorter one carry the suffix \<open>_exe\<close>.

  A decoded response body is a JSON value. Reading a property that is not there gives
  \<^verbatim>\<open>undefined\<close>, so that value is part of the type. Numbers are integers here: the
  fields the script reads (ids, epoch milliseconds, counts) are integral, and apart from
  formatting a timestamp the only thing the script asks of a number is whether it is
  zero. An object is the list of its own properties, each name once.
\<close>

datatype jsval =
    JUndefined
  | JNull
  | JBool bool
  | JNum int
  | JStr string
  | JArr "jsval list"
  | JObj "(string \<times> jsval) list"

datatype js_error = TypeError

text \<open>ToBoolean, as \<^verbatim>\<open>if (x)\<close>, \<^verbatim>\<open>x || y\<close> and \<^verbatim>\<open>x && y\<close> apply it.\<close>

fun truthy :: "jsval \<Rightarrow> bool" where
  "truthy JUndefined = False"
| "truthy JNull = False"
| "truthy (JBool b) = b"
| "truthy (JNum n) = (n \<noteq> 0)"
| "truthy (JStr s) = (s \<noteq> [])"
| "truthy (JArr xs) = True"
| "truthy (JObj fs) = True"

definition js_or :: "jsval \<Rightarrow> jsval \<Rightarrow> jsval" where
  "js_or a b = (if truthy a then a else b)"

text \<open>
  \<^verbatim>\<open>v.name\<close>: a TypeError on \<^verbatim>\<open>null\<close> and \<^verbatim>\<open>undefined\<close>, the own property of an
  object, and \<^verbatim>\<open>undefined\<close> on every other value (none of the names the script reads,
  \<^verbatim>\<open>elements\<close>, \<^verbatim>\<open>data\<close>, \<^verbatim>\<open>jobPostingId\<close>, \<^verbatim>\<open>entityUrn\<close>, \<^verbatim>\<open>listedAt\<close>, ..., is
  a property of a string, number, boolean or array, or of \<^verbatim>\<open>Object.prototype\<close>).
\<close>

fun get_prop :: "jsval \<Rightarrow> string \<Rightarrow> js_error + jsval" where
  "get_prop JUndefined p = Inl TypeError"
| "get_prop JNull p = Inl TypeError"
| "get_prop (JObj fs) p = Inr (case map_of fs p of None \<Rightarrow> JUndefined | Some v \<Rightarrow> v)"
| "get_prop v p = Inr JUndefined"

text \<open>\<^verbatim>\<open>v?.name\<close>: \<^verbatim>\<open>undefined\<close> where \<^verbatim>\<open>v.name\<close> would throw.\<close>

definition opt_prop :: "jsval \<Rightarrow> string \<Rightarrow> jsval" where
  "opt_prop v p = (case get_prop v p of Inl e \<Rightarrow> JUndefined | Inr x \<Rightarrow> x)"

fun is_array :: "jsval \<Rightarrow> bool" where
  "is_array (JArr xs) = True"
| "is_array v = False"

text \<open>The values that JavaScript compares by value; arrays and objects are references.\<close>

fun primitive :: "jsval \<Rightarrow> bool" where
  "primitive (JArr xs) = False"
| "primitive (JObj fs) = False"
| "primitive v = True"

section \<open>Identifier Extractor\<close>

text \<open>
  The patterns of \<^verbatim>\<open>extractJobId\<close> all have one shape: fixed text (literal characters
  and, in the third, the class \<^verbatim>\<open>[=:]\<close>), the group \<^verbatim>\<open>(\d+)\<close>, and in the fourth a
  closing quote. A pattern is the items before the group and the literal after it.
  \<^verbatim>\<open>\d+\<close> is greedy; since no pattern's closing literal starts with a digit, giving
  digits back never turns a failure into a match, so the group is the whole run of
  digits. \<^verbatim>\<open>String.prototype.match\<close> without the \<^verbatim>\<open>g\<close> flag returns the leftmost match.
  The patterns are ASCII and \<^verbatim>\<open>\d\<close> is \<^verbatim>\<open>[0-9]\<close>, so matching the bytes of a string
  finds what matching its UTF-16 code units finds.
\<close>

datatype rx_item = Lit string | OneOf string

type_synonym pattern = "rx_item list \<times> string"

definition is_digit :: "char \<Rightarrow> bool" where
  "is_digit c = (c \<in> set ''0123456789'')"

fun starts_with :: "string \<Rightarrow> string \<Rightarrow> bool" where
  "starts_with [] s = True"
| "starts_with (p # ps) [] = False"
| "starts_with (p # ps) (c # cs) = (p = c \<and> starts_with ps cs)"

fun match_items :: "rx_item list \<Rightarrow> string \<Rightarrow> string option" where
  "match_items [] s = Some s"
| "match_items (Lit l # its) s =
     (if starts_with l s then match_items its (drop (length l) s) else None)"
| "match_items (OneOf cs # its) [] = None"
| "match_items (OneOf cs # its) (c # s) =
     (if c \<in> set cs then match_items its s else None)"

definition match_here :: "pattern \<Rightarrow> string \<Rightarrow> string option" where
  "match_here p s =
     (case match_items (fst p) s of
        None \<Rightarrow> None
      | Some r \<Rightarrow>
          if takeWhile is_digit r \<noteq> [] \<and> starts_with (snd p) (dropWhile is_digit r)
          then Some (takeWhile is_digit r) else None)"

fun rx_match :: "pattern \<Rightarrow> string \<Rightarrow> string option" where
  "rx_match p [] = match_here p []"
| "rx_match p (c # cs) =
     (case match_here p (c # cs) of Some d \<Rightarrow> Some d | None \<Rightarrow> rx_match p cs)"

definition view_pattern :: pattern where
  "view_pattern = ([Lit ''/jobs/view/''], [])"

definition current_pattern :: pattern where
  "current_pattern = ([Lit ''currentJobId=''], [])"

definition posting_pattern :: pattern where
  "posting_pattern = ([Lit ''jobPostingId'', OneOf ''=:''], [])"

definition quoted_pattern :: pattern where
  "quoted_pattern =
     ([Lit (CHR 0x22 # ''jobPostingId'' @ [CHR 0x22, CHR '':'', CHR 0x22])], [CHR 0x22])"

definition patterns :: "pattern list" where
  "patterns = [view_pattern, current_pattern, posting_pattern, quoted_pattern]"

definition patterns_exe :: "pattern list" where
  "patterns_exe = [view_pattern, current_pattern, posting_pattern]"

text \<open>The loop \<^verbatim>\<open>for (const pattern of patterns) { ... if (match) return match[1]; } return null\<close>.\<close>

fun first_capture :: "pattern list \<Rightarrow> string \<Rightarrow> string option" where
  "first_capture [] url = None"
| "first_capture (p # ps) url =
     (case rx_match p url of Some d \<Rightarrow> Some d | None \<Rightarrow> first_capture ps url)"

definition extractJobId :: "string \<Rightarrow> string option" where
  "extractJobId url = first_capture patterns url"

definition extractJobId_exe :: "string \<Rightarrow> string option" where
  "extractJobId_exe url = first_capture patterns_exe url"

text \<open>
  The specification's wording of the extractor: of the rules that match the input, in
  their order, the capture of the first one; absent when none matches.
\<close>

definition extract_spec :: "pattern list \<Rightarrow> string \<Rightarrow> string option" where
  "extract_spec ps url =
     (case filter (\<lambda>p. rx_match p url \<noteq> None) ps of
        [] \<Rightarrow> None
      | p # _ \<Rightarrow> rx_match p url)"

text \<open>
  Vocabulary for stating what the extractor does on the URL shapes it supports:
  \<open>texts its\<close> lists the strings the fixed part of a rule matches, \<open>digits d\<close> says that
  \<open>d\<close> is a non-empty run of digits, \<open>digit_first s\<close> that \<open>s\<close> starts with a digit.
\<close>

fun texts :: "rx_item list \<Rightarrow> string list" where
  "texts [] = [[]]"
| "texts (Lit l # its) = map ((@) l) (texts its)"
| "texts (OneOf cs # its) = concat (map (\<lambda>c. map ((#) c) (texts its)) cs)"

definition digits :: "string \<Rightarrow> bool" where
  "digits s = (s \<noteq> [] \<and> list_all is_digit s)"

fun digit_first :: "string \<Rightarrow> bool" where
  "digit_first [] = False"
| "digit_first (c # cs) = is_digit c"

text \<open>
  The supported shapes, said without the matcher. \<open>rule_at p u i d\<close>: at position \<open>i\<close> of
  \<open>u\<close> stands the fixed text of rule \<open>p\<close>, then the id \<open>d\<close>, a non-empty run of digits
  that no digit follows, then the rule's closing literal. \<open>rule_finds p u d\<close>: \<open>d\<close> is the
  id at the leftmost position where rule \<open>p\<close> stands in \<open>u\<close>. \<open>rule_silent p u\<close>: rule
  \<open>p\<close> stands nowhere in \<open>u\<close>. \<open>embedded_id ps u d\<close>: \<open>d\<close> is what the first rule of
  \<open>ps\<close> that stands somewhere in \<open>u\<close> finds.
\<close>

definition rule_at :: "pattern \<Rightarrow> string \<Rightarrow> nat \<Rightarrow> string \<Rightarrow> bool" where
  "rule_at p u i d =
     (digits d \<and>
      (\<exists>m rest. m \<in> set (texts (fst p)) \<and> drop i u = m @ d @ snd p @ rest
          \<and> \<not> digit_first (snd p @ rest)))"

definition rule_finds :: "pattern \<Rightarrow> string \<Rightarrow> string \<Rightarrow> bool" where
  "rule_finds p u d = (\<exists>i. rule_at p u i d \<and> (\<forall>j<i. \<forall>e. \<not> rule_at p u j e))"

definition rule_silent :: "pattern \<Rightarrow> string \<Rightarrow> bool" where
  "rule_silent p u = (\<forall>i d. \<not> rule_at p u i d)"

definition embedded_id :: "pattern list \<Rightarrow> string \<Rightarrow> string \<Rightarrow> bool" where
  "embedded_id ps u d =
     (\<exists>ps1 p ps2. ps = ps1 @ p # ps2 \<and> list_all (\<lambda>q. rule_silent q u) ps1 \<and> rule_finds p u d)"

section \<open>Record Cache and harvest\<close>

text \<open>
  \<^verbatim>\<open>this.jobData\<close> is a \<^verbatim>\<open>Map\<close> from job id to the stored object literal: its entries
  in insertion order. The id is whatever
  \<^verbatim>\<open>job.jobPostingId || this.extractJobId(...)\<close> evaluates to, so keys are JS values.
  A \<^verbatim>\<open>Map\<close> compares keys by SameValueZero: strings, numbers and booleans by value, an
  array or object by reference. Every array or object that reaches \<^verbatim>\<open>set\<close> as a key is
  the \<^verbatim>\<open>jobPostingId\<close> of an entry of a freshly decoded payload, a reference that no
  earlier key is, and \<^verbatim>\<open>get\<close> is called with strings only. So a key that is an array or
  object equals no key of the cache: \<^verbatim>\<open>set\<close> adds an entry for it, and two entries with
  equal array ids stand side by side.

  \<^verbatim>\<open>set\<close> on a key that is present replaces the value where the entry stands;
  otherwise it adds the entry at the end.
\<close>

type_synonym cache = "(jsval \<times> jsval) list"

fun cache_set :: "jsval \<Rightarrow> jsval \<Rightarrow> cache \<Rightarrow> cache" where
  "cache_set k r [] = [(k, r)]"
| "cache_set k r (e # c) =
     (if primitive k \<and> fst e = k then (k, r) # c else e # cache_set k r c)"

fun cache_get :: "jsval \<Rightarrow> cache \<Rightarrow> jsval option" where
  "cache_get k [] = None"
| "cache_get k (e # c) =
     (if primitive k \<and> fst e = k then Some (snd e) else cache_get k c)"

text \<open>Sequencing of steps that may throw: the first exception ends the evaluation.\<close>

fun bindE :: "js_error + 'a \<Rightarrow> ('a \<Rightarrow> js_error + 'b) \<Rightarrow> js_error + 'b" where
  "bindE (Inl e) f = Inl e"
| "bindE (Inr x) f = f x"

text \<open>
  \<^verbatim>\<open>convertTimestamp\<close>: \<^verbatim>\<open>'N/A'\<close> for a falsy timestamp. Otherwise the result is
  \<^verbatim>\<open>new Date(parseInt(timestamp))\<close> printed by \<^verbatim>\<open>toLocaleDateString\<close> and
  \<^verbatim>\<open>toLocaleTimeString\<close>, which depends on the browser's locale and time zone: the
  parameter \<open>fmt\<close> stands for it. It may throw (\<^verbatim>\<open>parseInt\<close> converts its argument to a
  string, which fails on an object whose \<^verbatim>\<open>toString\<close> is not callable).
\<close>

type_synonym formatter = "jsval \<Rightarrow> js_error + string"

definition convertTimestamp :: "formatter \<Rightarrow> jsval \<Rightarrow> js_error + string" where
  "convertTimestamp fmt timestamp =
     (if \<not> truthy timestamp then Inr ''N/A'' else fmt timestamp)"

text \<open>
  \<^verbatim>\<open>this.extractJobId(v)\<close> on a JS value: \<^verbatim>\<open>url.match\<close> exists on strings only, so any
  other argument throws. The result is the capture or \<^verbatim>\<open>null\<close>.
\<close>

definition js_capture :: "string option \<Rightarrow> jsval" where
  "js_capture r = (case r of None \<Rightarrow> JNull | Some d \<Rightarrow> JStr d)"

fun extractJobId_js :: "jsval \<Rightarrow> js_error + jsval" where
  "extractJobId_js (JStr s) = Inr (js_capture (extractJobId s))"
| "extractJobId_js v = Inl TypeError"

fun extractJobId_js_exe :: "jsval \<Rightarrow> js_error + jsval" where
  "extractJobId_js_exe (JStr s) = Inr (js_capture (extractJobId_exe s))"
| "extractJobId_js_exe v = Inl TypeError"

text \<open>
  \<^verbatim>\<open>jobs.forEach(callback)\<close> over an array: the callback either throws, leaving the cache
  as it found it, or returns the cache it wrote. An exception ends the loop; what
  earlier entries wrote stays written.
\<close>

fun forEach :: "('a \<Rightarrow> 's \<Rightarrow> js_error + 's) \<Rightarrow> 'a list \<Rightarrow> 's \<Rightarrow> js_error option \<times> 's" where
  "forEach f [] s = (None, s)"
| "forEach f (x # xs) s =
     (case f x s of Inl e \<Rightarrow> (Some e, s) | Inr s' \<Rightarrow> forEach f xs s')"

text \<open>\<^verbatim>\<open>jobs.forEach\<close> on a value that is not an array is a call of \<^verbatim>\<open>undefined\<close>.\<close>

fun forEach_js :: "(jsval \<Rightarrow> 's \<Rightarrow> js_error + 's) \<Rightarrow> jsval \<Rightarrow> 's \<Rightarrow> js_error option \<times> 's" where
  "forEach_js f (JArr js) s = forEach f js s"
| "forEach_js f v s = (Some TypeError, s)"

text \<open>\<^verbatim>\<open>try { ... } catch (error) { console.error(...) }\<close>: nothing leaves the block.\<close>

definition try_catch :: "js_error option \<times> 's \<Rightarrow> js_error option \<times> 's" where
  "try_catch r = (None, snd r)"

subsection \<open>\<^verbatim>\<open>processJobData\<close> of \<^verbatim>\<open>installer_script.py\<close> (lines 129-166)\<close>

definition select_jobs :: "jsval \<Rightarrow> js_error + jsval" where
  "select_jobs data =
     bindE (get_prop data ''elements'') (\<lambda>el.
       if truthy el then Inr el
       else bindE (get_prop data ''data'') (\<lambda>d.
         bindE (if truthy d then get_prop d ''elements'' else Inr d) (\<lambda>de.
           if truthy de then Inr de
           else if is_array data then Inr data
           else bindE (get_prop data ''jobPostingId'') (\<lambda>pid.
             if truthy pid then Inr (JArr [data]) else Inr (JArr [])))))"

definition job_id :: "jsval \<Rightarrow> js_error + jsval" where
  "job_id job =
     bindE (get_prop job ''jobPostingId'') (\<lambda>pid.
       if truthy pid then Inr pid
       else bindE (get_prop job ''entityUrn'') extractJobId_js)"

definition job_record :: "formatter \<Rightarrow> jsval \<Rightarrow> jsval \<Rightarrow> js_error + jsval" where
  "job_record fmt jobId job =
     bindE (bindE (get_prop job ''listedAt'') (convertTimestamp fmt)) (\<lambda>listedAt.
     bindE (bindE (get_prop job ''expireAt'') (convertTimestamp fmt)) (\<lambda>expireAt.
     bindE (bindE (get_prop job ''originalListedAt'') (convertTimestamp fmt)) (\<lambda>originalListedAt.
     bindE (get_prop job ''views'') (\<lambda>views.
     bindE (get_prop job ''applies'') (\<lambda>applies.
     bindE (get_prop job ''title'') (\<lambda>title.
     bindE (get_prop job ''companyDetails'') (\<lambda>companyDetails.
       Inr (JObj
         [(''id'', jobId),
          (''listedAt'', JStr listedAt),
          (''expireAt'', JStr expireAt),
          (''originalListedAt'', JStr originalListedAt),
          (''views'', js_or views (JStr ''N/A'')),
          (''applies'', js_or applies (JStr ''N/A'')),
          (''title'', js_or title (JStr ''Unknown'')),
          (''company'',
             js_or (opt_prop (opt_prop companyDetails ''companyResolutionResult'') ''name'')
               (JStr ''Unknown''))]))))))))"

text \<open>The callback of \<^verbatim>\<open>jobs.forEach\<close> (lines 143-160).\<close>

definition store_job :: "formatter \<Rightarrow> jsval \<Rightarrow> cache \<Rightarrow> js_error + cache" where
  "store_job fmt job c =
     bindE (get_prop job ''jobPostingId'') (\<lambda>pid.
     bindE (if truthy pid then Inr pid else get_prop job ''entityUrn'') (\<lambda>present.
       if truthy present then
         bindE (job_id job) (\<lambda>jobId.
           if truthy jobId
           then bindE (job_record fmt jobId job) (\<lambda>r. Inr (cache_set jobId r c))
           else Inr c)
       else Inr c))"

definition processJobData :: "formatter \<Rightarrow> jsval \<Rightarrow> cache \<Rightarrow> js_error option \<times> cache" where
  "processJobData fmt data c =
     try_catch
       (case select_jobs data of
          Inl e \<Rightarrow> (Some e, c)
        | Inr jobs \<Rightarrow> forEach_js (store_job fmt) jobs c)"

subsection \<open>\<^verbatim>\<open>processJobData\<close> of \<^verbatim>\<open>exe_installer_script.py\<close> (lines 234-253)\<close>

definition select_jobs_exe :: "jsval \<Rightarrow> js_error + jsval" where
  "select_jobs_exe data =
     bindE (get_prop data ''elements'') (\<lambda>el.
       if truthy el then Inr el
       else bindE (get_prop data ''data'') (\<lambda>d.
         bindE (if truthy d then get_prop d ''elements'' else Inr d) (\<lambda>de.
           if truthy de then Inr de
           else Inr (if is_array data then data else JArr [data]))))"

definition job_id_exe :: "jsval \<Rightarrow> js_error + jsval" where
  "job_id_exe job =
     bindE (get_prop job ''jobPostingId'') (\<lambda>pid.
       if truthy pid then Inr pid
       else bindE (get_prop job ''entityUrn'') (\<lambda>urn.
         extractJobId_js_exe (js_or urn (JStr []))))"

definition job_record_exe :: "formatter \<Rightarrow> jsval \<Rightarrow> jsval \<Rightarrow> js_error + jsval" where
  "job_record_exe fmt jobId job =
     bindE (bindE (get_prop job ''listedAt'') (convertTimestamp fmt)) (\<lambda>listedAt.
     bindE (bindE (get_prop job ''expireAt'') (convertTimestamp fmt)) (\<lambda>expireAt.
     bindE (get_prop job ''views'') (\<lambda>views.
     bindE (get_prop job ''applies'') (\<lambda>applies.
       Inr (JObj
         [(''id'', jobId),
          (''listedAt'', JStr listedAt),
          (''expireAt'', JStr expireAt),
          (''views'', js_or views (JStr ''N/A'')),
          (''applies'', js_or applies (JStr ''N/A''))])))))"

definition store_job_exe :: "formatter \<Rightarrow> jsval \<Rightarrow> cache \<Rightarrow> js_error + cache" where
  "store_job_exe fmt job c =
     bindE (job_id_exe job) (\<lambda>jobId.
       if truthy jobId
       then bindE (job_record_exe fmt jobId job) (\<lambda>r. Inr (cache_set jobId r c))
       else Inr c)"

definition processJobData_exe :: "formatter \<Rightarrow> jsval \<Rightarrow> cache \<Rightarrow> js_error option \<times> cache" where
  "processJobData_exe fmt data c =
     try_catch
       (case select_jobs_exe data of
          Inl e \<Rightarrow> (Some e, c)
        | Inr jobs \<Rightarrow> forEach_js (store_job_exe fmt) jobs c)"

section \<open>Interceptor\<close>

text \<open>
  What a \<^verbatim>\<open>fetch\<close> delivers: a promise that rejects with a reason (\<open>Inl\<close>) or fulfils
  with a response (\<open>Inr\<close>). A reason is whatever the page's primitive rejected with, or
  an exception thrown in a handler of the wrapper's \<^verbatim>\<open>then\<close>. Of a response the wrapper
  reads \<^verbatim>\<open>ok\<close> and works on a clone of it. \<open>body\<close> says what that does:
  \<^item> \<open>Disturbed\<close>: the body has been read or is locked, \<^verbatim>\<open>response.clone()\<close> throws a
    TypeError;
  \<^item> \<open>Undecodable\<close>: the clone is made and its \<^verbatim>\<open>json()\<close> rejects;
  \<^item> \<open>Json data\<close>: the clone is made and its \<^verbatim>\<open>json()\<close> resolves to \<open>data\<close>.
  Whatever else a response carries is the record's extension.

  A call runs in a world of two parts: the state of the page and network, of any type
  \<open>'h\<close>, and the cache of the script's instance, which the wrapper's closure reaches
  through \<^verbatim>\<open>self\<close>. The harvest happens in a promise callback after the response has
  been handed on; the model applies it at the call.
\<close>

datatype body_state = Disturbed | Undecodable | Json jsval

datatype reason = PageReason jsval | Thrown js_error

record response =
  ok :: bool
  body :: body_state

text \<open>What \<^verbatim>\<open>clone().json()\<close> resolves to, when the clone is made and decodes.\<close>

definition json_body :: "'a response_scheme \<Rightarrow> jsval option" where
  "json_body resp = (case body resp of Json data \<Rightarrow> Some data | _ \<Rightarrow> None)"

type_synonym ('a, 'h) fetch =
  "jsval list \<Rightarrow> 'h \<times> cache \<Rightarrow> (reason + 'a response_scheme) \<times> ('h \<times> cache)"

fun str_includes :: "string \<Rightarrow> string \<Rightarrow> bool" where
  "str_includes [] pat = (pat = [])"
| "str_includes (c # cs) pat = (starts_with pat (c # cs) \<or> str_includes cs pat)"

text \<open>\<^verbatim>\<open>typeof url === 'string' && url.includes('voyager/api/jobs/jobPostings')\<close>\<close>

fun is_target :: "jsval \<Rightarrow> bool" where
  "is_target (JStr url) = str_includes url ''voyager/api/jobs/jobPostings''"
| "is_target v = False"

text \<open>\<^verbatim>\<open>args[0]\<close>\<close>

fun first_arg :: "jsval list \<Rightarrow> jsval" where
  "first_arg [] = JUndefined"
| "first_arg (a # as) = a"

text \<open>
  \<^verbatim>\<open>clonedResponse.json().then(data => self.processJobData(data, url)).catch(...)\<close>: a
  body that does not decode, and anything the processing might throw, end in the
  \<^verbatim>\<open>catch\<close>.
\<close>

definition harvest ::
  "(jsval \<Rightarrow> cache \<Rightarrow> js_error option \<times> cache) \<Rightarrow> jsval option \<Rightarrow> cache \<Rightarrow> cache" where
  "harvest process decoded c =
     (case decoded of None \<Rightarrow> c | Some data \<Rightarrow> snd (process data c))"

text \<open>
  The function that \<^verbatim>\<open>interceptNetworkRequests\<close> assigns to \<^verbatim>\<open>window.fetch\<close>. The handler
  passed to \<^verbatim>\<open>then\<close> calls \<^verbatim>\<open>response.clone()\<close> when \<^verbatim>\<open>response.ok\<close>; the call stands
  outside the \<^verbatim>\<open>catch\<close> of the decoding chain, so an exception of \<^verbatim>\<open>clone()\<close> rejects the
  promise the wrapper returned.
\<close>

definition fetch_wrapper ::
  "(jsval \<Rightarrow> cache \<Rightarrow> js_error option \<times> cache) \<Rightarrow> ('a, 'h) fetch \<Rightarrow> ('a, 'h) fetch" where
  "fetch_wrapper process originalFetch args w =
     (if is_target (first_arg args) then
        (case originalFetch args w of
           (Inl reason, w') \<Rightarrow> (Inl reason, w')
         | (Inr resp, (h, c)) \<Rightarrow>
             if ok resp then
               (if body resp = Disturbed then (Inl (Thrown TypeError), (h, c))
                else (Inr resp, (h, harvest process (json_body resp) c)))
             else (Inr resp, (h, c)))
      else originalFetch args w)"

definition wrapped_fetch :: "formatter \<Rightarrow> ('a, 'h) fetch \<Rightarrow> ('a, 'h) fetch" where
  "wrapped_fetch fmt = fetch_wrapper (processJobData fmt)"

definition wrapped_fetch_exe :: "formatter \<Rightarrow> ('a, 'h) fetch \<Rightarrow> ('a, 'h) fetch" where
  "wrapped_fetch_exe fmt = fetch_wrapper (processJobData_exe fmt)"

text \<open>
  \<^verbatim>\<open>window.fetch\<close> after \<open>n\<close> runs of \<^verbatim>\<open>interceptNetworkRequests\<close>: each run wraps what
  \<^verbatim>\<open>window.fetch\<close> then is.
\<close>

fun window_fetch :: "nat \<Rightarrow> formatter \<Rightarrow> ('a, 'h) fetch \<Rightarrow> ('a, 'h) fetch" where
  "window_fetch 0 fmt page_fetch = page_fetch"
| "window_fetch (Suc n) fmt page_fetch = wrapped_fetch fmt (window_fetch n fmt page_fetch)"

text \<open>The page's own primitive acts on the page and network only.\<close>

definition page_fetch ::
  "(jsval list \<Rightarrow> 'h \<Rightarrow> (reason + 'a response_scheme) \<times> 'h) \<Rightarrow> ('a, 'h) fetch" where
  "page_fetch f args w = (case f args (fst w) of (r, h') \<Rightarrow> (r, (h', snd w)))"

section \<open>Presenter and Lifecycle Controller\<close>

text \<open>
  The instance's fields (\<open>jobData\<close>, \<open>isInitialized\<close>, \<open>observer\<close>, \<open>currentTooltip\<close>)
  together with what the script changes in the page:
  \<^item> \<open>fetch_wrappers\<close>: how many wrappers lie around the page's \<^verbatim>\<open>fetch\<close>;
  \<^item> \<open>click_listeners\<close>: the click listeners added to \<^verbatim>\<open>document\<close>;
  \<^item> \<open>url_observers\<close>: the observers of \<^verbatim>\<open>location.href\<close> that \<^verbatim>\<open>setupJobClickHandlers\<close>
    of the richer script creates;
  \<^item> \<open>tooltips\<close>: the elements of class \<^verbatim>\<open>linkedin-job-insights-tooltip\<close> in the document;
  \<^item> \<open>timers\<close>: the pending auto-dismiss timeouts, each named by the panel it was
    armed for;
  \<^item> \<open>next_ref\<close>: the identity the next \<^verbatim>\<open>createElement\<close> gives.
  \<open>observer\<close> is \<open>None\<close> for \<^verbatim>\<open>null\<close>, \<open>Some True\<close> for an observer that is observing and
  \<open>Some False\<close> for a disconnected one.

  A panel shows the four interpolated fields in the template's order. \<open>position\<close> is the
  inline \<^verbatim>\<open>left\<close> and \<^verbatim>\<open>top\<close>; \<open>None\<close> leaves the panel where the stylesheet puts it
  (\<^verbatim>\<open>position: fixed; top: 20px; right: 20px\<close>).
\<close>

record panel =
  ref :: nat
  rows :: "jsval list"
  position :: "(int \<times> int) option"

record state =
  jobData :: cache
  isInitialized :: bool
  observer :: "bool option"
  currentTooltip :: "nat option"
  fetch_wrappers :: nat
  click_listeners :: nat
  url_observers :: nat
  tooltips :: "panel list"
  timers :: "nat list"
  next_ref :: nat

text \<open>The constructor, in a page the script has not touched.\<close>

definition new_instance :: state where
  "new_instance =
     \<lparr>jobData = [], isInitialized = False, observer = None, currentTooltip = None,
      fetch_wrappers = 0, click_listeners = 0, url_observers = 0, tooltips = [],
      timers = [], next_ref = 0\<rparr>"

text \<open>
  What the page offers when a panel is placed: the bounding rectangle's \<^verbatim>\<open>right\<close> and
  \<^verbatim>\<open>top\<close> of the first element matching
  \<^verbatim>\<open>.jobs-details, .job-view-layout, .jobs-search__job-details\<close> (\<open>None\<close> when
  \<^verbatim>\<open>querySelector\<close> returns \<^verbatim>\<open>null\<close>), the panel's \<^verbatim>\<open>offsetWidth\<close> and
  \<^verbatim>\<open>window.innerWidth\<close>.
\<close>

record layout =
  anchor :: "(int \<times> int) option"
  offsetWidth :: int
  innerWidth :: int

definition panel_rows :: "jsval \<Rightarrow> jsval list" where
  "panel_rows jobInfo =
     [opt_prop jobInfo ''listedAt'', opt_prop jobInfo ''expireAt'',
      opt_prop jobInfo ''views'', opt_prop jobInfo ''applies'']"

definition remove_element :: "nat \<Rightarrow> panel list \<Rightarrow> panel list" where
  "remove_element r ps = filter (\<lambda>p. ref p \<noteq> r) ps"

subsection \<open>The richer script (\<^verbatim>\<open>installer_script.py\<close>)\<close>

text \<open>
  \<^verbatim>\<open>removeExistingTooltip\<close> (lines 263-270): the current panel, then every element of the
  tooltip class that is in the document.
\<close>

definition removeExistingTooltip :: "state \<Rightarrow> state" where
  "removeExistingTooltip s =
     (let s1 = (case currentTooltip s of
                  None \<Rightarrow> s
                | Some r \<Rightarrow> s\<lparr>currentTooltip := None,
                              tooltips := remove_element r (tooltips s)\<rparr>)
      in s1\<lparr>tooltips := []\<rparr>)"

definition place :: "layout \<Rightarrow> int \<times> int \<Rightarrow> int \<times> int" where
  "place lay rect =
     (min (fst rect - offsetWidth lay - 20) (innerWidth lay - offsetWidth lay - 20),
      max (snd rect + 20) 20)"

definition set_position :: "nat \<Rightarrow> int \<times> int \<Rightarrow> panel list \<Rightarrow> panel list" where
  "set_position r xy ps = map (\<lambda>p. if ref p = r then p\<lparr>position := Some xy\<rparr> else p) ps"

text \<open>
  \<^verbatim>\<open>showJobInsightsForId\<close> (lines 214-261). The panel is appended and made current
  before the anchor is looked up; \<^verbatim>\<open>getBoundingClientRect\<close> on the \<^verbatim>\<open>null\<close> that
  \<^verbatim>\<open>querySelector\<close> returns for a missing anchor throws, and the statements after it
  (the inline position, \<^verbatim>\<open>setTimeout\<close>) do not run.
\<close>

definition showJobInsightsForId :: "layout \<Rightarrow> string \<Rightarrow> state \<Rightarrow> js_error option \<times> state" where
  "showJobInsightsForId lay jobId s =
     (case cache_get (JStr jobId) (jobData s) of
        None \<Rightarrow> (None, s)
      | Some jobInfo \<Rightarrow>
          (let s1 = removeExistingTooltip s;
               r = next_ref s1;
               s2 = s1\<lparr>tooltips := tooltips s1 @ [\<lparr>ref = r, rows = panel_rows jobInfo, position = None\<rparr>],
                       next_ref := Suc r,
                       currentTooltip := Some r\<rparr>
           in case anchor lay of
                None \<Rightarrow> (Some TypeError, s2)
              | Some rect \<Rightarrow>
                  (None, s2\<lparr>tooltips := set_position r (place lay rect) (tooltips s2),
                             timers := timers s2 @ [r]\<rparr>)))"

text \<open>The timeout's callback (lines 256-260), for the panel \<open>r\<close> it closes over.\<close>

definition on_timeout :: "nat \<Rightarrow> state \<Rightarrow> state" where
  "on_timeout r s = (if currentTooltip s = Some r then removeExistingTooltip s else s)"

definition interceptNetworkRequests :: "state \<Rightarrow> state" where
  "interceptNetworkRequests s = s\<lparr>fetch_wrappers := Suc (fetch_wrappers s)\<rparr>"

definition setupJobClickHandlers :: "state \<Rightarrow> state" where
  "setupJobClickHandlers s =
     s\<lparr>click_listeners := Suc (click_listeners s), url_observers := Suc (url_observers s)\<rparr>"

definition observePageChanges :: "state \<Rightarrow> state" where
  "observePageChanges s = s\<lparr>observer := Some True\<rparr>"

definition init :: "state \<Rightarrow> state" where
  "init s =
     (if isInitialized s then s
      else (observePageChanges (setupJobClickHandlers (interceptNetworkRequests s)))
             \<lparr>isInitialized := True\<rparr>)"

definition destroy :: "state \<Rightarrow> state" where
  "destroy s =
     (let s1 = (case observer s of None \<Rightarrow> s | Some b \<Rightarrow> s\<lparr>observer := Some False\<rparr>);
          s2 = removeExistingTooltip s1
      in s2\<lparr>jobData := [], isInitialized := False\<rparr>)"

text \<open>
  What can happen to the script in a page: the two lifecycle calls, a decoded response
  reaching \<^verbatim>\<open>processJobData\<close> (only a wrapper calls it), a call of
  \<^verbatim>\<open>showJobInsightsForId\<close> (from a click or a change of location), a pending timeout
  firing, and a click on the close button of a panel (\<^verbatim>\<open>this.parentElement.remove()\<close>).
  An exception of \<^verbatim>\<open>showJobInsightsForId\<close> ends the timer task it ran in; the state it
  left stays.
\<close>

datatype event =
    Init
  | Destroy
  | Harvest jsval
  | ShowId layout string
  | Timeout nat
  | Close nat

fun step :: "formatter \<Rightarrow> event \<Rightarrow> state \<Rightarrow> state" where
  "step fmt Init s = init s"
| "step fmt Destroy s = destroy s"
| "step fmt (Harvest data) s =
     (if fetch_wrappers s = 0 then s
      else s\<lparr>jobData := snd (processJobData fmt data (jobData s))\<rparr>)"
| "step fmt (ShowId lay jobId) s = snd (showJobInsightsForId lay jobId s)"
| "step fmt (Timeout r) s =
     (if r \<in> set (timers s) then on_timeout r (s\<lparr>timers := remove1 r (timers s)\<rparr>) else s)"
| "step fmt (Close r) s = s\<lparr>tooltips := remove_element r (tooltips s)\<rparr>"

fun run :: "formatter \<Rightarrow> event list \<Rightarrow> state \<Rightarrow> state" where
  "run fmt [] s = s"
| "run fmt (e # es) s = run fmt es (step fmt e s)"

subsection \<open>The shorter script (\<^verbatim>\<open>exe_installer_script.py\<close>)\<close>

text \<open>\<^verbatim>\<open>removeExistingTooltip\<close> (lines 307-312): the current panel only.\<close>

definition removeExistingTooltip_exe :: "state \<Rightarrow> state" where
  "removeExistingTooltip_exe s =
     (case currentTooltip s of
        None \<Rightarrow> s
      | Some r \<Rightarrow> s\<lparr>currentTooltip := None, tooltips := remove_element r (tooltips s)\<rparr>)"

text \<open>
  The clicked job card: \<^verbatim>\<open>getAttribute('data-job-id')\<close> (\<open>None\<close> for \<^verbatim>\<open>null\<close>) and
  \<^verbatim>\<open>href\<close> (\<open>None\<close> for \<^verbatim>\<open>undefined\<close>, on an element that is not a link).
\<close>

record card =
  data_job_id :: "string option"
  href :: "string option"

definition nonempty :: "string option \<Rightarrow> string option" where
  "nonempty a = (case a of None \<Rightarrow> None | Some x \<Rightarrow> if x = [] then None else Some x)"

text \<open>\<^verbatim>\<open>jobCard.getAttribute('data-job-id') || this.extractJobId(jobCard.href || location.href)\<close>\<close>

definition card_job_id :: "card \<Rightarrow> string \<Rightarrow> string option" where
  "card_job_id jobCard location_href =
     (case nonempty (data_job_id jobCard) of
        Some a \<Rightarrow> Some a
      | None \<Rightarrow>
          nonempty (extractJobId_exe
            (case nonempty (href jobCard) of Some h \<Rightarrow> h | None \<Rightarrow> location_href)))"

text \<open>\<^verbatim>\<open>showJobInsights\<close> (lines 265-305): no anchor is looked up, the timeout is always armed.\<close>

definition showJobInsights_exe :: "card \<Rightarrow> string \<Rightarrow> state \<Rightarrow> js_error option \<times> state" where
  "showJobInsights_exe jobCard location_href s =
     (case card_job_id jobCard location_href of
        None \<Rightarrow> (None, s)
      | Some jobId \<Rightarrow>
          (case cache_get (JStr jobId) (jobData s) of
             None \<Rightarrow> (None, s)
           | Some jobInfo \<Rightarrow>
               (let s1 = removeExistingTooltip_exe s;
                    r = next_ref s1
                in (None,
                    s1\<lparr>tooltips := tooltips s1 @ [\<lparr>ref = r, rows = panel_rows jobInfo, position = None\<rparr>],
                       next_ref := Suc r,
                       currentTooltip := Some r,
                       timers := timers s1 @ [r]\<rparr>))))"

text \<open>The timeout's callback (line 304): \<^verbatim>\<open>() => this.removeExistingTooltip()\<close>.\<close>

definition on_timeout_exe :: "nat \<Rightarrow> state \<Rightarrow> state" where
  "on_timeout_exe r s = removeExistingTooltip_exe s"

definition setupJobClickHandlers_exe :: "state \<Rightarrow> state" where
  "setupJobClickHandlers_exe s = s\<lparr>click_listeners := Suc (click_listeners s)\<rparr>"

definition init_exe :: "state \<Rightarrow> state" where
  "init_exe s =
     (if isInitialized s then s
      else (setupJobClickHandlers_exe (interceptNetworkRequests s))\<lparr>isInitialized := True\<rparr>)"

text \<open>The shorter script has no \<^verbatim>\<open>destroy\<close>.\<close>

datatype event_exe =
    Init_exe
  | Harvest_exe jsval
  | ShowCard card string
  | Timeout_exe nat
  | Close_exe nat

fun step_exe :: "formatter \<Rightarrow> event_exe \<Rightarrow> state \<Rightarrow> state" where
  "step_exe fmt Init_exe s = init_exe s"
| "step_exe fmt (Harvest_exe data) s =
     (if fetch_wrappers s = 0 then s
      else s\<lparr>jobData := snd (processJobData_exe fmt data (jobData s))\<rparr>)"
| "step_exe fmt (ShowCard jobCard location_href) s =
     snd (showJobInsights_exe jobCard location_href s)"
| "step_exe fmt (Timeout_exe r) s =
     (if r \<in> set (timers s) then on_timeout_exe r (s\<lparr>timers := remove1 r (timers s)\<rparr>) else s)"
| "step_exe fmt (Close_exe r) s = s\<lparr>tooltips := remove_element r (tooltips s)\<rparr>"

fun run_exe :: "formatter \<Rightarrow> event_exe list \<Rightarrow> state \<Rightarrow> state" where
  "run_exe fmt [] s = s"
| "run_exe fmt (e # es) s = run_exe fmt es (step_exe fmt e s)"

section \<open>Vocabulary of the claims about the harvest\<close>

text \<open>
  A payload of unrecognized shape, in the words of the specification: no top-level
  list field (\<^verbatim>\<open>data.elements\<close> is not a list), no nested list field
  (\<^verbatim>\<open>data.data.elements\<close> is not a list), not a list itself, and not a single job entry.
  A job entry is what the loop of the richer script accepts as one (line 144): a value
  with a truthy \<^verbatim>\<open>jobPostingId\<close> or a truthy \<^verbatim>\<open>entityUrn\<close>.
\<close>

definition unrecognized :: "jsval \<Rightarrow> bool" where
  "unrecognized data =
     (\<not> is_array (opt_prop data ''elements'')
      \<and> \<not> is_array (opt_prop (opt_prop data ''data'') ''elements'')
      \<and> \<not> is_array data
      \<and> \<not> truthy (opt_prop data ''jobPostingId'')
      \<and> \<not> truthy (opt_prop data ''entityUrn''))"

definition nullish :: "jsval \<Rightarrow> bool" where
  "nullish v = (v = JUndefined \<or> v = JNull)"

text \<open>
  The id of a raw entry, in the words of the specification (4.3, step 2): the explicit
  id field when the entry has one, otherwise what the Identifier Extractor finds in the
  identifier-bearing field. \<open>extract\<close> is the extractor of the script in question.
\<close>

definition entry_id :: "(string \<Rightarrow> string option) \<Rightarrow> jsval \<Rightarrow> jsval \<Rightarrow> bool" where
  "entry_id extract job k =
     (\<not> nullish job \<and> truthy k \<and>
      (if truthy (opt_prop job ''jobPostingId'') then k = opt_prop job ''jobPostingId''
       else (case opt_prop job ''entityUrn'' of
               JStr urn \<Rightarrow> (case extract urn of Some d \<Rightarrow> k = JStr d | None \<Rightarrow> False)
             | _ \<Rightarrow> False)))"

text \<open>
  The timestamp fields each script formats, and the condition that the browser's
  formatter returns on those of an entry (an absent or zero timestamp is not formatted).
\<close>

definition timestamp_fields :: "string list" where
  "timestamp_fields = [''listedAt'', ''expireAt'', ''originalListedAt'']"

definition timestamp_fields_exe :: "string list" where
  "timestamp_fields_exe = [''listedAt'', ''expireAt'']"

definition formats :: "formatter \<Rightarrow> jsval \<Rightarrow> string list \<Rightarrow> bool" where
  "formats fmt job names =
     list_all (\<lambda>f. case convertTimestamp fmt (opt_prop job f) of Inl e \<Rightarrow> False | Inr t \<Rightarrow> True)
       names"

section \<open>Vocabulary of the claims about the lifecycle\<close>

text \<open>A run in which no \<^verbatim>\<open>init()\<close> comes after a \<^verbatim>\<open>destroy()\<close>.\<close>

definition no_reinit :: "event list \<Rightarrow> bool" where
  "no_reinit evs = (Init \<notin> set (dropWhile (\<lambda>e. e \<noteq> Destroy) evs))"

section \<open>Invariants\<close>

text \<open>
  \<open>panel_inv\<close>: the document holds no overlay, or exactly one and it is the current one.
  \<open>wrapper_inv\<close>: one wrapper lies around \<^verbatim>\<open>fetch\<close> when the instance is initialized, none
  otherwise.
\<close>

definition panel_inv :: "state \<Rightarrow> bool" where
  "panel_inv s =
     (case tooltips s of
        [] \<Rightarrow> True
      | [p] \<Rightarrow> currentTooltip s = Some (ref p)
      | p # q # ps \<Rightarrow> False)"

definition wrapper_inv :: "state \<Rightarrow> bool" where
  "wrapper_inv s = (fetch_wrappers s = (if isInitialized s then 1 else 0))"

section \<open>Sample inputs\<close>

text \<open>
  Concrete inputs for the theorems that evaluate the model: a formatter, a payload with
  two job entries, a layout with the anchor present and one without it, a page whose
  \<^verbatim>\<open>fetch\<close> answers with that payload, one that answers with a response whose body has
  been read, one whose \<^verbatim>\<open>fetch\<close> rejects, a URL holding the endpoint signature, a job card
  carrying \<^verbatim>\<open>data-job-id\<close>, and the records the two scripts store for an entry that has
  an id and a view count only.
\<close>

definition sample_fmt :: formatter where
  "sample_fmt v = Inr ''1/1/2024 10:00''"

definition sample_payload :: jsval where
  "sample_payload =
     JObj [(''elements'',
       JArr [JObj [(''jobPostingId'', JStr ''1''), (''views'', JNum 10)],
             JObj [(''jobPostingId'', JStr ''2''), (''views'', JNum 20)]])]"

definition sample_layout :: layout where
  "sample_layout = \<lparr>anchor = Some (900, 100), offsetWidth = 300, innerWidth = 1200\<rparr>"

definition no_anchor_layout :: layout where
  "no_anchor_layout = \<lparr>anchor = None, offsetWidth = 300, innerWidth = 1200\<rparr>"

definition sample_page :: "jsval list \<Rightarrow> unit \<Rightarrow> (reason + response) \<times> unit" where
  "sample_page args h = (Inr \<lparr>ok = True, body = Json sample_payload\<rparr>, h)"



text \<open>
  Three raw entries with the same explicit id: one with zero counts, and two that are
  written one after the other, the second lacking fields the first has.
\<close>

definition zero_entry :: jsval where
  "zero_entry = JObj [(''jobPostingId'', JStr ''42''), (''views'', JNum 0), (''applies'', JNum 0)]"

definition first_write :: jsval where
  "first_write =
     JObj [(''jobPostingId'', JStr ''42''), (''views'', JNum 10), (''title'', JStr ''Engineer'')]"

definition second_write :: jsval where
  "second_write = JObj [(''jobPostingId'', JStr ''42''), (''applies'', JNum 3)]"

definition sample_url :: jsval where
  "sample_url = JStr ''https://www.linkedin.com/voyager/api/jobs/jobPostings?ids=1''"

definition card_by_id :: "string \<Rightarrow> card" where
  "card_by_id i = \<lparr>data_job_id = Some i, href = None\<rparr>"

definition stored_sample :: "string \<Rightarrow> int \<Rightarrow> jsval" where
  "stored_sample i n =
     JObj [(''id'', JStr i), (''listedAt'', JStr ''N/A''), (''expireAt'', JStr ''N/A''),
           (''originalListedAt'', JStr ''N/A''), (''views'', JNum n), (''applies'', JStr ''N/A''),
           (''title'', JStr ''Unknown''), (''company'', JStr ''Unknown'')]"

definition stored_sample_exe :: "string \<Rightarrow> int \<Rightarrow> jsval" where
  "stored_sample_exe i n =
     JObj [(''id'', JStr i), (''listedAt'', JStr ''N/A''), (''expireAt'', JStr ''N/A''),
           (''views'', JNum n), (''applies'', JStr ''N/A'')]"

section \<open>Properties of the Identifier Extractor\<close>

lemma first_capture_spec: "first_capture ps url = extract_spec ps url"
  by (induction ps) (auto simp: extract_spec_def split: option.splits)

lemma starts_with_append: "starts_with l (l @ x)"
  by (induction l) auto

lemma starts_with_iff: "starts_with l s \<longleftrightarrow> (\<exists>t. s = l @ t)"
  by (induction l s rule: starts_with.induct) auto

lemma takeWhile_digits:
  "list_all is_digit ds \<Longrightarrow> \<not> digit_first rest \<Longrightarrow> takeWhile is_digit (ds @ rest) = ds"
  by (induction ds) (auto, (cases rest; simp)+)

lemma dropWhile_digits:
  "list_all is_digit ds \<Longrightarrow> \<not> digit_first rest \<Longrightarrow> dropWhile is_digit (ds @ rest) = rest"
  by (induction ds) (auto, (cases rest; simp)+)

lemma no_digit_after_run: "\<not> digit_first (dropWhile is_digit r)"
  by (induction r) auto

lemma texts_match:
  "m \<in> set (texts its) \<Longrightarrow> match_items its (m @ x) = Some x"
proof (induction its arbitrary: m)
  case Nil
  then show ?case by simp
next
  case (Cons it its)
  show ?case
  proof (cases it)
    case (Lit l)
    with Cons.prems obtain m' where "m = l @ m'" "m' \<in> set (texts its)" by auto
    with Cons.IH[of m'] Lit show ?thesis by (simp add: starts_with_append)
  next
    case (OneOf cs)
    with Cons.prems obtain c m' where "m = c # m'" "c \<in> set cs" "m' \<in> set (texts its)" by auto
    with Cons.IH[of m'] OneOf show ?thesis by simp
  qed
qed

lemma match_items_texts:
  "match_items its s = Some r \<Longrightarrow> \<exists>m \<in> set (texts its). s = m @ r"
proof (induction its s arbitrary: r rule: match_items.induct)
  case (2 l its s)
  from "2.prems" have sw: "starts_with l s" and rest: "match_items its (drop (length l) s) = Some r"
    by (auto split: if_splits)
  from sw obtain t where t: "s = l @ t" by (auto simp: starts_with_iff)
  with "2.IH"[OF sw rest] obtain m where "m \<in> set (texts its)" "t = m @ r" by auto
  with t show ?case by auto
next
  case (4 cs its c s)
  from "4.prems" have c: "c \<in> set cs" and rest: "match_items its s = Some r"
    by (auto split: if_splits)
  from "4.IH"[OF c rest] obtain m where "m \<in> set (texts its)" "s = m @ r" by auto
  with c show ?case by auto
qed auto

lemma match_items_iff:
  "match_items its s = Some r \<longleftrightarrow> (\<exists>m \<in> set (texts its). s = m @ r)"
  using match_items_texts texts_match by blast

lemma match_here_iff: "match_here p s = Some d \<longleftrightarrow> rule_at p s 0 d"
proof
  assume "match_here p s = Some d"
  then obtain r where r: "match_items (fst p) s = Some r" and d: "takeWhile is_digit r = d"
    and ne: "d \<noteq> []" and sw: "starts_with (snd p) (dropWhile is_digit r)"
    by (auto simp: match_here_def split: option.splits if_splits)
  from r obtain m where m: "m \<in> set (texts (fst p))" "s = m @ r"
    using match_items_texts by blast
  from sw obtain rest where rest: "dropWhile is_digit r = snd p @ rest"
    by (auto simp: starts_with_iff)
  have "r = d @ snd p @ rest"
    using takeWhile_dropWhile_id[of is_digit r] d rest by simp
  moreover have "\<not> digit_first (snd p @ rest)"
    using no_digit_after_run[of r] rest by simp
  moreover have "digits d"
    using d ne by (auto simp: digits_def list_all_iff dest: set_takeWhileD)
  ultimately show "rule_at p s 0 d"
    using m by (auto simp: rule_at_def)
next
  assume "rule_at p s 0 d"
  then obtain m rest where m: "m \<in> set (texts (fst p))" and s: "s = m @ d @ snd p @ rest"
    and d: "digits d" and nd: "\<not> digit_first (snd p @ rest)"
    by (auto simp: rule_at_def)
  have "match_items (fst p) s = Some (d @ snd p @ rest)"
    using texts_match[OF m] s by simp
  moreover have "takeWhile is_digit (d @ snd p @ rest) = d"
    "dropWhile is_digit (d @ snd p @ rest) = snd p @ rest"
    using d nd by (simp_all add: digits_def takeWhile_digits dropWhile_digits)
  ultimately show "match_here p s = Some d"
    using d by (simp add: match_here_def digits_def starts_with_append)
qed

lemma rule_at_drop: "rule_at p u i d \<longleftrightarrow> match_here p (drop i u) = Some d"
  unfolding match_here_iff by (simp add: rule_at_def)

lemma rule_finds_alt:
  "rule_finds p u d \<longleftrightarrow>
     (\<exists>i. match_here p (drop i u) = Some d \<and> (\<forall>j<i. match_here p (drop j u) = None))"
  by (simp add: rule_finds_def rule_at_drop)

lemma rule_silent_alt: "rule_silent p u \<longleftrightarrow> (\<forall>i. match_here p (drop i u) = None)"
  by (simp add: rule_silent_def rule_at_drop)

lemma rx_match_iff: "rx_match p u = Some d \<longleftrightarrow> rule_finds p u d"
proof (induction u)
  case Nil
  show ?case
  proof
    assume "rx_match p [] = Some d"
    then have "match_here p (drop 0 []) = Some d" by simp
    then show "rule_finds p [] d" unfolding rule_finds_alt by blast
  next
    assume "rule_finds p [] d"
    then show "rx_match p [] = Some d" by (auto simp: rule_finds_alt)
  qed
next
  case (Cons c cs)
  show ?case
  proof (cases "match_here p (c # cs)")
    case (Some d0)
    have "rule_finds p (c # cs) d \<longleftrightarrow> d = d0"
    proof
      assume "rule_finds p (c # cs) d"
      then obtain i where i: "match_here p (drop i (c # cs)) = Some d"
        "\<forall>j<i. match_here p (drop j (c # cs)) = None"
        by (auto simp: rule_finds_alt)
      have "i = 0"
      proof (rule ccontr)
        assume "i \<noteq> 0"
        then have "match_here p (drop 0 (c # cs)) = None" using i(2) by blast
        with Some show False by simp
      qed
      with i(1) Some show "d = d0" by simp
    next
      assume "d = d0"
      with Some have "match_here p (drop 0 (c # cs)) = Some d" by simp
      then show "rule_finds p (c # cs) d" unfolding rule_finds_alt by blast
    qed
    moreover have "rx_match p (c # cs) = Some d0" using Some by simp
    ultimately show ?thesis by (metis option.inject)
  next
    case None
    have "rule_finds p (c # cs) d \<longleftrightarrow> rule_finds p cs d"
    proof
      assume "rule_finds p (c # cs) d"
      then obtain i where i: "match_here p (drop i (c # cs)) = Some d"
        "\<forall>j<i. match_here p (drop j (c # cs)) = None"
        by (auto simp: rule_finds_alt)
      from i(1) None obtain i' where i': "i = Suc i'" by (cases i) auto
      have "\<forall>j<i'. match_here p (drop j cs) = None"
      proof (intro allI impI)
        fix j assume "j < i'"
        then have "Suc j < i" using i' by simp
        with i(2) have "match_here p (drop (Suc j) (c # cs)) = None" by blast
        then show "match_here p (drop j cs) = None" by simp
      qed
      with i(1) i' show "rule_finds p cs d" by (auto simp: rule_finds_alt)
    next
      assume "rule_finds p cs d"
      then obtain i where i: "match_here p (drop i cs) = Some d"
        "\<forall>j<i. match_here p (drop j cs) = None"
        by (auto simp: rule_finds_alt)
      have "\<forall>j<Suc i. match_here p (drop j (c # cs)) = None"
      proof (intro allI impI)
        fix j assume j: "j < Suc i"
        show "match_here p (drop j (c # cs)) = None"
        proof (cases j)
          case 0
          with None show ?thesis by simp
        next
          case (Suc j')
          with j i(2) show ?thesis by simp
        qed
      qed
      moreover have "match_here p (drop (Suc i) (c # cs)) = Some d" using i(1) by simp
      ultimately show "rule_finds p (c # cs) d" unfolding rule_finds_alt by blast
    qed
    with None Cons.IH show ?thesis by simp
  qed
qed

lemma rule_finds_not_silent: "rule_finds p u d \<Longrightarrow> \<not> rule_silent p u"
  unfolding rule_finds_def rule_silent_def by blast

lemma rule_at_finds: "rule_at p u i d \<Longrightarrow> \<exists>e. rule_finds p u e"
proof (induction i arbitrary: d rule: less_induct)
  case (less i)
  show ?case
  proof (cases "\<exists>j<i. \<exists>e. rule_at p u j e")
    case True
    then obtain j e where "j < i" "rule_at p u j e" by blast
    then show ?thesis by (rule less.IH)
  next
    case False
    then have "\<forall>j<i. \<forall>e. \<not> rule_at p u j e" by blast
    with less.prems have "rule_finds p u d" unfolding rule_finds_def by blast
    then show ?thesis ..
  qed
qed

lemma rx_match_None_iff: "rx_match p u = None \<longleftrightarrow> rule_silent p u"
proof
  assume n: "rx_match p u = None"
  show "rule_silent p u"
  proof (rule ccontr)
    assume "\<not> rule_silent p u"
    then obtain i d where "rule_at p u i d" by (auto simp: rule_silent_def)
    from rule_at_finds[OF this] obtain e where "rule_finds p u e" ..
    with n show False by (simp add: rx_match_iff[symmetric])
  qed
next
  assume "rule_silent p u"
  then have "\<And>d. \<not> rule_finds p u d" using rule_finds_not_silent by blast
  then show "rx_match p u = None"
    by (cases "rx_match p u") (auto simp: rx_match_iff)
qed

lemma first_capture_iff: "first_capture ps u = Some d \<longleftrightarrow> embedded_id ps u d"
proof (induction ps)
  case Nil
  show ?case by (simp add: embedded_id_def)
next
  case (Cons p ps)
  show ?case
  proof (cases "rx_match p u")
    case (Some d0)
    then have f: "rule_finds p u d0" by (simp add: rx_match_iff)
    have "embedded_id (p # ps) u d \<longleftrightarrow> d = d0"
    proof
      assume "embedded_id (p # ps) u d"
      then obtain ps1 q ps2 where e: "p # ps = ps1 @ q # ps2"
        "list_all (\<lambda>q. rule_silent q u) ps1" "rule_finds q u d"
        by (auto simp: embedded_id_def)
      have "ps1 = []"
      proof (cases ps1)
        case (Cons a as)
        with e(1,2) have "rule_silent p u" by simp
        with f show ?thesis using rule_finds_not_silent by blast
      qed simp
      with e have "rule_finds p u d" by simp
      then have "rx_match p u = Some d" by (simp add: rx_match_iff)
      with Some show "d = d0" by simp
    next
      assume "d = d0"
      with f have "p # ps = [] @ p # ps \<and> list_all (\<lambda>q. rule_silent q u) [] \<and> rule_finds p u d"
        by simp
      then show "embedded_id (p # ps) u d" unfolding embedded_id_def by blast
    qed
    moreover have "first_capture (p # ps) u = Some d0" using Some by simp
    ultimately show ?thesis by (metis option.inject)
  next
    case None
    then have sil: "rule_silent p u" by (simp add: rx_match_None_iff)
    have "embedded_id (p # ps) u d \<longleftrightarrow> embedded_id ps u d"
    proof
      assume "embedded_id (p # ps) u d"
      then obtain ps1 q ps2 where e: "p # ps = ps1 @ q # ps2"
        "list_all (\<lambda>q. rule_silent q u) ps1" "rule_finds q u d"
        by (auto simp: embedded_id_def)
      show "embedded_id ps u d"
      proof (cases ps1)
        case Nil
        with e have "rule_finds p u d" by simp
        with sil show ?thesis using rule_finds_not_silent by blast
      next
        case (Cons a as)
        with e have "ps = as @ q # ps2" "list_all (\<lambda>q. rule_silent q u) as" by simp_all
        with e(3) show ?thesis unfolding embedded_id_def by blast
      qed
    next
      assume "embedded_id ps u d"
      then obtain ps1 q ps2 where e: "ps = ps1 @ q # ps2"
        "list_all (\<lambda>q. rule_silent q u) ps1" "rule_finds q u d"
        by (auto simp: embedded_id_def)
      with sil have "p # ps = (p # ps1) @ q # ps2 \<and> list_all (\<lambda>q. rule_silent q u) (p # ps1)
          \<and> rule_finds q u d" by simp
      then show "embedded_id (p # ps) u d" unfolding embedded_id_def by blast
    qed
    with None Cons.IH show ?thesis by simp
  qed
qed

lemma first_capture_None_iff:
  "first_capture ps u = None \<longleftrightarrow> list_all (\<lambda>q. rule_silent q u) ps"
proof (induction ps)
  case Nil
  show ?case by simp
next
  case (Cons p ps)
  then show ?case
    by (cases "rx_match p u") (simp_all add: rx_match_None_iff[symmetric])
qed

lemma rule_at_extracts:
  assumes "p \<in> set ps" and "rule_at p u i d"
  shows "first_capture ps u \<noteq> None"
proof
  assume "first_capture ps u = None"
  then have "list_all (\<lambda>q. rule_silent q u) ps" by (simp add: first_capture_None_iff)
  with assms(1) have "rule_silent p u" by (simp add: list_all_iff)
  with assms(2) show False by (simp add: rule_silent_def)
qed

lemmas pattern_defs = patterns_def patterns_exe_def view_pattern_def current_pattern_def
  posting_pattern_def quoted_pattern_def

text \<open>
  Claim C6. For every input string, in both scripts: the extractor returns \<open>d\<close> exactly
  when \<open>d\<close> is the id embedded at the leftmost place where the first rule, in the order
  of the list, that stands anywhere in the input stands; it returns absent exactly when
  no rule stands anywhere in the input; so every input in which some rule stands at some
  place yields an id. It equals the specification's wording \<open>extract_spec\<close>: of the
  rules that match, the capture of the first. \<^verbatim>\<open>extract("https://x/jobs/view/123456")\<close>
  is \<^verbatim>\<open>"123456"\<close>, \<^verbatim>\<open>extract("https://x/jobs/search")\<close> is absent, and an id in a
  query parameter is found behind other digits of the URL. The extractor is a function
  of its input alone.
\<close>

theorem extractJobId_first_matching_rule:
  "(extractJobId u = Some d \<longleftrightarrow> embedded_id patterns u d)
   \<and> (extractJobId u = None \<longleftrightarrow> list_all (\<lambda>q. rule_silent q u) patterns)
   \<and> (extractJobId_exe u = Some d \<longleftrightarrow> embedded_id patterns_exe u d)
   \<and> (extractJobId_exe u = None \<longleftrightarrow> list_all (\<lambda>q. rule_silent q u) patterns_exe)
   \<and> (p \<in> set patterns \<and> rule_at p u i e \<longrightarrow> extractJobId u \<noteq> None)
   \<and> (p \<in> set patterns_exe \<and> rule_at p u i e \<longrightarrow> extractJobId_exe u \<noteq> None)
   \<and> extractJobId u = extract_spec patterns u
   \<and> extractJobId_exe u = extract_spec patterns_exe u
   \<and> extractJobId ''https://x/jobs/view/123456'' = Some ''123456''
   \<and> extractJobId_exe ''https://x/jobs/view/123456'' = Some ''123456''
   \<and> extractJobId ''https://x/jobs/search'' = None
   \<and> extractJobId_exe ''https://x/jobs/search'' = None
   \<and> extractJobId ''https://x/jobs/search?f_E=2&currentJobId=42'' = Some ''42''
   \<and> extractJobId_exe ''https://x/jobs/search?f_E=2&currentJobId=42'' = Some ''42''"
proof -
  have iff: "extractJobId u = Some d \<longleftrightarrow> embedded_id patterns u d"
    "extractJobId u = None \<longleftrightarrow> list_all (\<lambda>q. rule_silent q u) patterns"
    "extractJobId_exe u = Some d \<longleftrightarrow> embedded_id patterns_exe u d"
    "extractJobId_exe u = None \<longleftrightarrow> list_all (\<lambda>q. rule_silent q u) patterns_exe"
    by (simp_all add: extractJobId_def extractJobId_exe_def first_capture_iff
        first_capture_None_iff)
  have some: "p \<in> set patterns \<and> rule_at p u i e \<longrightarrow> extractJobId u \<noteq> None"
    "p \<in> set patterns_exe \<and> rule_at p u i e \<longrightarrow> extractJobId_exe u \<noteq> None"
    unfolding extractJobId_def extractJobId_exe_def using rule_at_extracts by blast+
  have refine: "extractJobId u = extract_spec patterns u"
    "extractJobId_exe u = extract_spec patterns_exe u"
    by (simp_all add: extractJobId_def extractJobId_exe_def first_capture_spec)
  have found: "extractJobId ''https://x/jobs/view/123456'' = Some ''123456''"
    "extractJobId_exe ''https://x/jobs/view/123456'' = Some ''123456''"
    by (simp_all add: extractJobId_def extractJobId_exe_def pattern_defs match_here_def is_digit_def)
  have absent: "extractJobId ''https://x/jobs/search'' = None"
    "extractJobId_exe ''https://x/jobs/search'' = None"
    by (simp_all add: extractJobId_def extractJobId_exe_def pattern_defs match_here_def is_digit_def)
  have query: "extractJobId ''https://x/jobs/search?f_E=2&currentJobId=42'' = Some ''42''"
    "extractJobId_exe ''https://x/jobs/search?f_E=2&currentJobId=42'' = Some ''42''"
    by (simp_all add: extractJobId_def extractJobId_exe_def pattern_defs match_here_def is_digit_def)
  from iff some refine found absent query show ?thesis by blast
qed

theorem extractJobId_first_matching_rule_witness:
  "current_pattern \<in> set patterns
   \<and> rule_at current_pattern ''https://x/jobs/search?f_E=2&currentJobId=42&refId=7'' 28 ''42''
   \<and> extractJobId ''https://x/jobs/search?f_E=2&currentJobId=42&refId=7'' = Some ''42''
   \<and> embedded_id patterns ''https://x/jobs/search?f_E=2&currentJobId=42&refId=7'' ''42''
   \<and> posting_pattern \<in> set patterns_exe
   \<and> rule_at posting_pattern ''urn:li:jobPostingId:3771'' 7 ''3771''
   \<and> extractJobId_exe ''urn:li:jobPostingId:3771'' = Some ''3771''
   \<and> embedded_id patterns_exe ''urn:li:jobPostingId:3771'' ''3771''
   \<and> extractJobId ''https://x/jobs/search'' = None
   \<and> list_all (\<lambda>q. rule_silent q ''https://x/jobs/search'') patterns"
proof -
  let ?u = "''https://x/jobs/search?f_E=2&currentJobId=42&refId=7''"
  let ?v = "''urn:li:jobPostingId:3771''"
  note a = extractJobId_first_matching_rule[where u = ?u and d = "''42''" and p = current_pattern
      and i = 28 and e = "''42''"]
  note b = extractJobId_first_matching_rule[where u = ?v and d = "''3771''" and p = posting_pattern
      and i = 7 and e = "''3771''"]
  note c = extractJobId_first_matching_rule[where u = "''https://x/jobs/search''" and d = "[]"
      and p = view_pattern and i = 0 and e = "[]"]
  have h1: "current_pattern \<in> set patterns" "posting_pattern \<in> set patterns_exe"
    by (simp_all add: patterns_def patterns_exe_def)
  have h2: "rule_at current_pattern ?u 28 ''42''" "rule_at posting_pattern ?v 7 ''3771''"
    unfolding rule_at_drop by (simp_all add: pattern_defs match_here_def is_digit_def)
  have e1: "extractJobId ?u = Some ''42''" "extractJobId_exe ?v = Some ''3771''"
    by (simp_all add: extractJobId_def extractJobId_exe_def pattern_defs match_here_def is_digit_def)
  from a e1(1) have g1: "embedded_id patterns ?u ''42''" by blast
  from b e1(2) have g2: "embedded_id patterns_exe ?v ''3771''" by blast
  from c have n1: "extractJobId ''https://x/jobs/search'' = None" by blast
  with c have n2: "list_all (\<lambda>q. rule_silent q ''https://x/jobs/search'') patterns" by blast
  from h1 h2 e1 g1 g2 n1 n2 show ?thesis by blast
qed

section \<open>Properties of the harvest and of the Interceptor\<close>

subsection \<open>Reading properties, sequencing\<close>

lemma get_prop_nullish: "nullish v \<Longrightarrow> get_prop v p = Inl TypeError"
  by (auto simp: nullish_def)

lemma get_prop_value: "\<not> nullish v \<Longrightarrow> get_prop v p = Inr (opt_prop v p)"
  by (cases v) (auto simp: nullish_def opt_prop_def)

lemma truthy_not_nullish: "truthy v \<Longrightarrow> \<not> nullish v"
  by (auto simp: nullish_def)

lemma forEach_js_not_array: "\<not> is_array v \<Longrightarrow> forEach_js f v s = (Some TypeError, s)"
  by (cases v) auto

lemma bindE_Inr: "bindE m f = Inr y \<longleftrightarrow> (\<exists>x. m = Inr x \<and> f x = Inr y)"
  by (cases m) auto

lemma extractJobId_empty: "extractJobId [] = None" "extractJobId_exe [] = None"
  by (simp_all add: extractJobId_def extractJobId_exe_def patterns_def patterns_exe_def
      view_pattern_def current_pattern_def posting_pattern_def quoted_pattern_def match_here_def)

subsection \<open>The cache\<close>

lemma cache_get_set: "primitive k \<Longrightarrow> cache_get k (cache_set k r c) = Some r"
  by (induction c) auto

lemma cache_set_twice:
  "primitive k \<Longrightarrow> cache_set k r2 (cache_set k r1 c) = cache_set k r2 c"
  by (induction c) auto

lemma cache_set_member: "(k, r) \<in> set (cache_set k r c)"
  by (induction c) auto

text \<open>An array or object key never replaces: its entry is added at the end.\<close>

lemma cache_set_reference: "\<not> primitive k \<Longrightarrow> cache_set k r c = c @ [(k, r)]"
  by (induction c) auto

subsection \<open>Unrecognized payloads\<close>

text \<open>Whatever the payload, no exception leaves \<^verbatim>\<open>processJobData\<close>.\<close>

lemma processJobData_no_error: "fst (processJobData fmt data c) = None"
  "fst (processJobData_exe fmt data c) = None"
  by (simp_all add: processJobData_def processJobData_exe_def try_catch_def)

lemma select_jobs_unrecognized:
  assumes "unrecognized data" and "\<not> nullish data"
  shows "select_jobs data = Inr (JArr []) \<or> (\<exists>v. select_jobs data = Inr v \<and> \<not> is_array v)"
  using assms
  by (auto simp: select_jobs_def unrecognized_def get_prop_value truthy_not_nullish)

lemma processJobData_unrecognized:
  assumes "unrecognized data"
  shows "processJobData fmt data c = (None, c)"
proof (cases "nullish data")
  case True
  then show ?thesis
    by (simp add: processJobData_def select_jobs_def get_prop_nullish try_catch_def)
next
  case False
  with assms select_jobs_unrecognized[of data] show ?thesis
    by (auto simp: processJobData_def try_catch_def forEach_js_not_array)
qed

lemma store_job_exe_no_id:
  assumes "\<not> nullish job" and "\<not> truthy (opt_prop job ''jobPostingId'')"
    and "\<not> truthy (opt_prop job ''entityUrn'')"
  shows "store_job_exe fmt job c = Inr c"
  using assms
  by (simp add: store_job_exe_def job_id_exe_def get_prop_value js_or_def
      extractJobId_empty js_capture_def)

lemma select_jobs_exe_unrecognized:
  assumes "unrecognized data" and "\<not> nullish data"
  shows "select_jobs_exe data = Inr (JArr [data])
         \<or> (\<exists>v. select_jobs_exe data = Inr v \<and> \<not> is_array v)"
  using assms
  by (auto simp: select_jobs_exe_def unrecognized_def get_prop_value truthy_not_nullish)

lemma processJobData_exe_unrecognized:
  assumes "unrecognized data"
  shows "processJobData_exe fmt data c = (None, c)"
proof (cases "nullish data")
  case True
  then show ?thesis
    by (simp add: processJobData_exe_def select_jobs_exe_def get_prop_nullish try_catch_def)
next
  case False
  from assms have "\<not> truthy (opt_prop data ''jobPostingId'')" "\<not> truthy (opt_prop data ''entityUrn'')"
    by (simp_all add: unrecognized_def)
  with False have "store_job_exe fmt data c = Inr c"
    by (rule store_job_exe_no_id)
  with False assms select_jobs_exe_unrecognized[of data] show ?thesis
    by (auto simp: processJobData_exe_def try_catch_def forEach_js_not_array)
qed

subsection \<open>Storing an entry\<close>

lemma entry_id_job_id: "entry_id extractJobId j k \<Longrightarrow> job_id j = Inr k"
  by (auto simp: entry_id_def job_id_def get_prop_value js_capture_def
      split: if_splits jsval.splits option.splits)

lemma entry_id_job_id_exe: "entry_id extractJobId_exe j k \<Longrightarrow> job_id_exe j = Inr k"
  by (auto simp: entry_id_def job_id_exe_def get_prop_value js_capture_def js_or_def
      split: if_splits jsval.splits option.splits)

lemma entry_id_present:
  "entry_id extract j k \<Longrightarrow> extract [] = None \<Longrightarrow>
     truthy (opt_prop j ''jobPostingId'') \<or> truthy (opt_prop j ''entityUrn'')"
  by (auto simp: entry_id_def split: if_splits jsval.splits option.splits)

lemma store_job_value:
  assumes "entry_id extractJobId j k"
  shows "store_job fmt j c = bindE (job_record fmt k j) (\<lambda>r. Inr (cache_set k r c))"
proof -
  from assms have n: "\<not> nullish j" and t: "truthy k" by (simp_all add: entry_id_def)
  from entry_id_job_id[OF assms] entry_id_present[OF assms extractJobId_empty(1)] n t
  show ?thesis
    by (auto simp: store_job_def get_prop_value)
qed

lemma store_job_exe_value:
  assumes "entry_id extractJobId_exe j k"
  shows "store_job_exe fmt j c = bindE (job_record_exe fmt k j) (\<lambda>r. Inr (cache_set k r c))"
proof -
  from assms have "truthy k" by (simp add: entry_id_def)
  with entry_id_job_id_exe[OF assms] show ?thesis by (simp add: store_job_exe_def)
qed

lemma formats_field:
  "formats fmt j names \<Longrightarrow> f \<in> set names \<Longrightarrow> \<exists>t. convertTimestamp fmt (opt_prop j f) = Inr t"
proof -
  assume "formats fmt j names" and "f \<in> set names"
  then have "case convertTimestamp fmt (opt_prop j f) of Inl e \<Rightarrow> False | Inr t \<Rightarrow> True"
    by (simp add: formats_def list_all_iff)
  then show ?thesis by (cases "convertTimestamp fmt (opt_prop j f)") auto
qed

lemma job_record_built:
  assumes "\<not> nullish j" and "formats fmt j timestamp_fields"
  shows "\<exists>r. job_record fmt k j = Inr r
      \<and> opt_prop r ''id'' = k
      \<and> opt_prop r ''views'' = js_or (opt_prop j ''views'') (JStr ''N/A'')
      \<and> opt_prop r ''applies'' = js_or (opt_prop j ''applies'') (JStr ''N/A'')
      \<and> opt_prop r ''title'' = js_or (opt_prop j ''title'') (JStr ''Unknown'')"
proof -
  from formats_field[OF assms(2)] obtain a b c where
    "convertTimestamp fmt (opt_prop j ''listedAt'') = Inr a"
    "convertTimestamp fmt (opt_prop j ''expireAt'') = Inr b"
    "convertTimestamp fmt (opt_prop j ''originalListedAt'') = Inr c"
    unfolding timestamp_fields_def by (metis list.set_intros)
  with assms(1) show ?thesis
    by (simp add: job_record_def get_prop_value opt_prop_def[of "JObj _"])
qed

lemma job_record_exe_built:
  assumes "\<not> nullish j" and "formats fmt j timestamp_fields_exe"
  shows "\<exists>r. job_record_exe fmt k j = Inr r
      \<and> opt_prop r ''id'' = k
      \<and> opt_prop r ''views'' = js_or (opt_prop j ''views'') (JStr ''N/A'')
      \<and> opt_prop r ''applies'' = js_or (opt_prop j ''applies'') (JStr ''N/A'')"
proof -
  from formats_field[OF assms(2)] obtain a b where
    "convertTimestamp fmt (opt_prop j ''listedAt'') = Inr a"
    "convertTimestamp fmt (opt_prop j ''expireAt'') = Inr b"
    unfolding timestamp_fields_exe_def by (metis list.set_intros)
  with assms(1) show ?thesis
    by (simp add: job_record_exe_def get_prop_value opt_prop_def[of "JObj _"])
qed

lemma store_job_stores:
  assumes "entry_id extractJobId j k" and "formats fmt j timestamp_fields"
  shows "\<exists>r. job_record fmt k j = Inr r \<and> store_job fmt j c = Inr (cache_set k r c)
      \<and> opt_prop r ''views'' = js_or (opt_prop j ''views'') (JStr ''N/A'')
      \<and> opt_prop r ''applies'' = js_or (opt_prop j ''applies'') (JStr ''N/A'')"
proof -
  from assms(1) have "\<not> nullish j" by (simp add: entry_id_def)
  from job_record_built[OF this assms(2), of k] obtain r where
    r: "job_record fmt k j = Inr r"
    "opt_prop r ''views'' = js_or (opt_prop j ''views'') (JStr ''N/A'')"
    "opt_prop r ''applies'' = js_or (opt_prop j ''applies'') (JStr ''N/A'')"
    by blast
  with store_job_value[OF assms(1), of fmt c] show ?thesis by simp
qed

lemma store_job_exe_stores:
  assumes "entry_id extractJobId_exe j k" and "formats fmt j timestamp_fields_exe"
  shows "\<exists>r. job_record_exe fmt k j = Inr r \<and> store_job_exe fmt j c = Inr (cache_set k r c)
      \<and> opt_prop r ''views'' = js_or (opt_prop j ''views'') (JStr ''N/A'')
      \<and> opt_prop r ''applies'' = js_or (opt_prop j ''applies'') (JStr ''N/A'')"
proof -
  from assms(1) have "\<not> nullish j" by (simp add: entry_id_def)
  from job_record_exe_built[OF this assms(2), of k] obtain r where
    r: "job_record_exe fmt k j = Inr r"
    "opt_prop r ''views'' = js_or (opt_prop j ''views'') (JStr ''N/A'')"
    "opt_prop r ''applies'' = js_or (opt_prop j ''applies'') (JStr ''N/A'')"
    by blast
  with store_job_exe_value[OF assms(1), of fmt c] show ?thesis by simp
qed


lemma processJobData_array:
  "processJobData fmt (JArr js) c = (None, snd (forEach (store_job fmt) js c))"
  "processJobData_exe fmt (JArr js) c = (None, snd (forEach (store_job_exe fmt) js c))"
  by (simp_all add: processJobData_def processJobData_exe_def select_jobs_def select_jobs_exe_def
      try_catch_def)

lemma rows_counts:
  "panel_rows r ! 2 = opt_prop r ''views''" "panel_rows r ! 3 = opt_prop r ''applies''"
  by (simp_all add: panel_rows_def)

lemma js_or_zero: "js_or (JNum 0) v = v" "js_or JUndefined v = v"
  by (simp_all add: js_or_def)

text \<open>A zero count and a missing count give the same stored record.\<close>

lemma job_record_zero:
  "map_of fs ''views'' = None \<Longrightarrow>
     job_record fmt k (JObj ((''views'', JNum 0) # fs)) = job_record fmt k (JObj fs)"
  "map_of fs ''applies'' = None \<Longrightarrow>
     job_record fmt k (JObj ((''applies'', JNum 0) # fs)) = job_record fmt k (JObj fs)"
  "map_of fs ''views'' = None \<Longrightarrow>
     job_record_exe fmt k (JObj ((''views'', JNum 0) # fs)) = job_record_exe fmt k (JObj fs)"
  "map_of fs ''applies'' = None \<Longrightarrow>
     job_record_exe fmt k (JObj ((''applies'', JNum 0) # fs)) = job_record_exe fmt k (JObj fs)"
  by (simp_all add: job_record_def job_record_exe_def js_or_def)

lemma store_job_zero_views:
  "map_of fs ''views'' = None \<Longrightarrow>
     store_job fmt (JObj ((''views'', JNum 0) # fs)) c = store_job fmt (JObj fs) c"
  "map_of fs ''views'' = None \<Longrightarrow>
     store_job_exe fmt (JObj ((''views'', JNum 0) # fs)) c = store_job_exe fmt (JObj fs) c"
  by (simp_all add: store_job_def job_id_def store_job_exe_def job_id_exe_def job_record_zero
      cong: if_cong)

lemma store_job_zero_applies:
  "map_of fs ''applies'' = None \<Longrightarrow>
     store_job fmt (JObj ((''applies'', JNum 0) # fs)) c = store_job fmt (JObj fs) c"
  "map_of fs ''applies'' = None \<Longrightarrow>
     store_job_exe fmt (JObj ((''applies'', JNum 0) # fs)) c = store_job_exe fmt (JObj fs) c"
  by (simp_all add: store_job_def job_id_def store_job_exe_def job_id_exe_def job_record_zero
      cong: if_cong)

lemma store_zero:
  assumes "entry_id extractJobId j k" and "formats fmt j timestamp_fields"
  shows "\<exists>r. store_job fmt j c = Inr (cache_set k r c)
      \<and> processJobData fmt (JArr [j]) c = (None, cache_set k r c)
      \<and> (k, r) \<in> set (cache_set k r c)
      \<and> (primitive k \<longrightarrow> cache_get k (cache_set k r c) = Some r)
      \<and> (opt_prop j ''views'' = JNum 0 \<longrightarrow>
            opt_prop r ''views'' = JStr ''N/A'' \<and> panel_rows r ! 2 = JStr ''N/A'')
      \<and> (opt_prop j ''applies'' = JNum 0 \<longrightarrow>
            opt_prop r ''applies'' = JStr ''N/A'' \<and> panel_rows r ! 3 = JStr ''N/A'')"
proof -
  from store_job_stores[OF assms, of c] obtain r where
    r: "store_job fmt j c = Inr (cache_set k r c)"
    "opt_prop r ''views'' = js_or (opt_prop j ''views'') (JStr ''N/A'')"
    "opt_prop r ''applies'' = js_or (opt_prop j ''applies'') (JStr ''N/A'')"
    by blast
  from r(1) have "processJobData fmt (JArr [j]) c = (None, cache_set k r c)"
    by (simp add: processJobData_array)
  with r show ?thesis
    by (auto simp: cache_set_member cache_get_set rows_counts js_or_zero)
qed

lemma store_zero_exe:
  assumes "entry_id extractJobId_exe j k" and "formats fmt j timestamp_fields_exe"
  shows "\<exists>r. store_job_exe fmt j c = Inr (cache_set k r c)
      \<and> processJobData_exe fmt (JArr [j]) c = (None, cache_set k r c)
      \<and> (k, r) \<in> set (cache_set k r c)
      \<and> (primitive k \<longrightarrow> cache_get k (cache_set k r c) = Some r)
      \<and> (opt_prop j ''views'' = JNum 0 \<longrightarrow>
            opt_prop r ''views'' = JStr ''N/A'' \<and> panel_rows r ! 2 = JStr ''N/A'')
      \<and> (opt_prop j ''applies'' = JNum 0 \<longrightarrow>
            opt_prop r ''applies'' = JStr ''N/A'' \<and> panel_rows r ! 3 = JStr ''N/A'')"
proof -
  from store_job_exe_stores[OF assms, of c] obtain r where
    r: "store_job_exe fmt j c = Inr (cache_set k r c)"
    "opt_prop r ''views'' = js_or (opt_prop j ''views'') (JStr ''N/A'')"
    "opt_prop r ''applies'' = js_or (opt_prop j ''applies'') (JStr ''N/A'')"
    by blast
  from r(1) have "processJobData_exe fmt (JArr [j]) c = (None, cache_set k r c)"
    by (simp add: processJobData_array)
  with r show ?thesis
    by (auto simp: cache_set_member cache_get_set rows_counts js_or_zero)
qed

text \<open>Two entries with the same id, one after the other.\<close>

lemma store_twice:
  assumes "primitive k" and "entry_id extractJobId j1 k" and "entry_id extractJobId j2 k"
    and "formats fmt j1 timestamp_fields" and "formats fmt j2 timestamp_fields"
  shows "\<exists>r1 r2. store_job fmt j1 c = Inr (cache_set k r1 c)
      \<and> cache_get k (cache_set k r1 c) = Some r1
      \<and> store_job fmt j2 (cache_set k r1 c) = Inr (cache_set k r2 c)
      \<and> processJobData fmt (JArr [j1, j2]) c = (None, cache_set k r2 c)
      \<and> job_record fmt k j2 = Inr r2
      \<and> cache_get k (cache_set k r2 c) = Some r2
      \<and> opt_prop r2 ''views'' = js_or (opt_prop j2 ''views'') (JStr ''N/A'')
      \<and> opt_prop r2 ''applies'' = js_or (opt_prop j2 ''applies'') (JStr ''N/A'')
      \<and> opt_prop r2 ''title'' = js_or (opt_prop j2 ''title'') (JStr ''Unknown'')"
proof -
  from store_job_stores[OF assms(2,4), of c] obtain r1 where
    r1: "store_job fmt j1 c = Inr (cache_set k r1 c)" by blast
  from assms(3) have "\<not> nullish j2" by (simp add: entry_id_def)
  from job_record_built[OF this assms(5), of k] obtain r2 where
    r2: "job_record fmt k j2 = Inr r2"
    "opt_prop r2 ''views'' = js_or (opt_prop j2 ''views'') (JStr ''N/A'')"
    "opt_prop r2 ''applies'' = js_or (opt_prop j2 ''applies'') (JStr ''N/A'')"
    "opt_prop r2 ''title'' = js_or (opt_prop j2 ''title'') (JStr ''Unknown'')"
    by blast
  from r2(1) store_job_value[OF assms(3), of fmt "cache_set k r1 c"] assms(1)
  have s2: "store_job fmt j2 (cache_set k r1 c) = Inr (cache_set k r2 c)"
    by (simp add: cache_set_twice)
  from r1 s2 have "processJobData fmt (JArr [j1, j2]) c = (None, cache_set k r2 c)"
    by (simp add: processJobData_array)
  moreover from assms(1) have "cache_get k (cache_set k r1 c) = Some r1"
    "cache_get k (cache_set k r2 c) = Some r2"
    by (simp_all add: cache_get_set)
  ultimately show ?thesis using r1 r2 s2 by blast
qed

lemma store_twice_exe:
  assumes "primitive k" and "entry_id extractJobId_exe j1 k" and "entry_id extractJobId_exe j2 k"
    and "formats fmt j1 timestamp_fields_exe" and "formats fmt j2 timestamp_fields_exe"
  shows "\<exists>r1 r2. store_job_exe fmt j1 c = Inr (cache_set k r1 c)
      \<and> cache_get k (cache_set k r1 c) = Some r1
      \<and> store_job_exe fmt j2 (cache_set k r1 c) = Inr (cache_set k r2 c)
      \<and> processJobData_exe fmt (JArr [j1, j2]) c = (None, cache_set k r2 c)
      \<and> job_record_exe fmt k j2 = Inr r2
      \<and> cache_get k (cache_set k r2 c) = Some r2
      \<and> opt_prop r2 ''views'' = js_or (opt_prop j2 ''views'') (JStr ''N/A'')
      \<and> opt_prop r2 ''applies'' = js_or (opt_prop j2 ''applies'') (JStr ''N/A'')"
proof -
  from store_job_exe_stores[OF assms(2,4), of c] obtain r1 where
    r1: "store_job_exe fmt j1 c = Inr (cache_set k r1 c)" by blast
  from assms(3) have "\<not> nullish j2" by (simp add: entry_id_def)
  from job_record_exe_built[OF this assms(5), of k] obtain r2 where
    r2: "job_record_exe fmt k j2 = Inr r2"
    "opt_prop r2 ''views'' = js_or (opt_prop j2 ''views'') (JStr ''N/A'')"
    "opt_prop r2 ''applies'' = js_or (opt_prop j2 ''applies'') (JStr ''N/A'')"
    by blast
  from r2(1) store_job_exe_value[OF assms(3), of fmt "cache_set k r1 c"] assms(1)
  have s2: "store_job_exe fmt j2 (cache_set k r1 c) = Inr (cache_set k r2 c)"
    by (simp add: cache_set_twice)
  from r1 s2 have "processJobData_exe fmt (JArr [j1, j2]) c = (None, cache_set k r2 c)"
    by (simp add: processJobData_array)
  moreover from assms(1) have "cache_get k (cache_set k r1 c) = Some r1"
    "cache_get k (cache_set k r2 c) = Some r2"
    by (simp_all add: cache_get_set)
  ultimately show ?thesis using r1 r2 s2 by blast
qed

text \<open>What the two scripts store for the sample entries.\<close>

lemma sample_entry_ids:
  "entry_id extractJobId zero_entry (JStr ''42'')" "entry_id extractJobId_exe zero_entry (JStr ''42'')"
  "entry_id extractJobId first_write (JStr ''42'')" "entry_id extractJobId_exe first_write (JStr ''42'')"
  "entry_id extractJobId second_write (JStr ''42'')" "entry_id extractJobId_exe second_write (JStr ''42'')"
  by (simp_all add: entry_id_def zero_entry_def first_write_def second_write_def nullish_def
      opt_prop_def)

lemma sample_formats:
  "formats sample_fmt j timestamp_fields" "formats sample_fmt j timestamp_fields_exe"
  by (simp_all add: formats_def timestamp_fields_def timestamp_fields_exe_def convertTimestamp_def
      sample_fmt_def)

lemmas store_defs = store_job_def store_job_exe_def job_id_def job_id_exe_def job_record_def
  job_record_exe_def convertTimestamp_def js_or_def opt_prop_def

lemma store_zero_entry:
  "store_job sample_fmt zero_entry [] =
     Inr [(JStr ''42'',
       JObj [(''id'', JStr ''42''), (''listedAt'', JStr ''N/A''), (''expireAt'', JStr ''N/A''),
             (''originalListedAt'', JStr ''N/A''), (''views'', JStr ''N/A''),
             (''applies'', JStr ''N/A''), (''title'', JStr ''Unknown''),
             (''company'', JStr ''Unknown'')])]"
  "store_job_exe sample_fmt zero_entry [] =
     Inr [(JStr ''42'',
       JObj [(''id'', JStr ''42''), (''listedAt'', JStr ''N/A''), (''expireAt'', JStr ''N/A''),
             (''views'', JStr ''N/A''), (''applies'', JStr ''N/A'')])]"
  by (simp_all add: store_defs zero_entry_def)

lemma store_two_writes:
  "store_job sample_fmt first_write [] =
     Inr [(JStr ''42'',
       JObj [(''id'', JStr ''42''), (''listedAt'', JStr ''N/A''), (''expireAt'', JStr ''N/A''),
             (''originalListedAt'', JStr ''N/A''), (''views'', JNum 10),
             (''applies'', JStr ''N/A''), (''title'', JStr ''Engineer''),
             (''company'', JStr ''Unknown'')])]"
  "store_job sample_fmt second_write [] =
     Inr [(JStr ''42'',
       JObj [(''id'', JStr ''42''), (''listedAt'', JStr ''N/A''), (''expireAt'', JStr ''N/A''),
             (''originalListedAt'', JStr ''N/A''), (''views'', JStr ''N/A''),
             (''applies'', JNum 3), (''title'', JStr ''Unknown''),
             (''company'', JStr ''Unknown'')])]"
  "store_job_exe sample_fmt first_write [] =
     Inr [(JStr ''42'',
       JObj [(''id'', JStr ''42''), (''listedAt'', JStr ''N/A''), (''expireAt'', JStr ''N/A''),
             (''views'', JNum 10), (''applies'', JStr ''N/A'')])]"
  "store_job_exe sample_fmt second_write [] =
     Inr [(JStr ''42'',
       JObj [(''id'', JStr ''42''), (''listedAt'', JStr ''N/A''), (''expireAt'', JStr ''N/A''),
             (''views'', JStr ''N/A''), (''applies'', JNum 3)])]"
  by (simp_all add: store_defs first_write_def second_write_def)

subsection \<open>The wrapper\<close>





lemma fetch_wrapper_clone_throws:
  "is_target (first_arg args) \<Longrightarrow> fst (orig args w) = Inr resp \<Longrightarrow> ok resp \<Longrightarrow>
     body resp = Disturbed \<Longrightarrow>
     fst (fetch_wrapper process orig args w) = Inl (Thrown TypeError)"
  by (auto simp: fetch_wrapper_def split: prod.splits sum.splits)









text \<open>
  Claim C8. A payload of unrecognized shape leaves the Record Cache as it was and no
  exception leaves \<^verbatim>\<open>processJobData\<close>, in both scripts; the wrapped call that carried
  such a payload returns what the primitive returned, in the same world.
\<close>

theorem unrecognized_payload_ignored:
  assumes "unrecognized data"
  shows "processJobData fmt data c = (None, c)
    \<and> processJobData_exe fmt data c = (None, c)
    \<and> (orig args w = (Inr resp, (h, c)) \<and> json_body resp = Some data \<longrightarrow>
         wrapped_fetch fmt orig args w = orig args w
         \<and> wrapped_fetch_exe fmt orig args w = orig args w)"
  using assms
  by (auto simp: processJobData_unrecognized processJobData_exe_unrecognized
      wrapped_fetch_def wrapped_fetch_exe_def fetch_wrapper_def harvest_def json_body_def
      split: body_state.splits)

theorem unrecognized_payload_ignored_witness:
  "unrecognized (JObj [(''paging'', JObj [(''count'', JNum 25)]), (''elements'', JStr ''none'')])
   \<and> processJobData (\<lambda>v. Inr ''date'')
        (JObj [(''paging'', JObj [(''count'', JNum 25)]), (''elements'', JStr ''none'')])
        [(JStr ''1'', JObj [])]
      = (None, [(JStr ''1'', JObj [])])
   \<and> processJobData_exe (\<lambda>v. Inr ''date'')
        (JObj [(''paging'', JObj [(''count'', JNum 25)]), (''elements'', JStr ''none'')])
        [(JStr ''1'', JObj [])]
      = (None, [(JStr ''1'', JObj [])])
   \<and> json_body \<lparr>ok = True, body = Json (JObj [(''paging'', JObj [(''count'', JNum 25)]),
                       (''elements'', JStr ''none'')])\<rparr>
      = Some (JObj [(''paging'', JObj [(''count'', JNum 25)]), (''elements'', JStr ''none'')])
   \<and> wrapped_fetch (\<lambda>v. Inr ''date'')
        (\<lambda>args w. (Inr \<lparr>ok = True, body = Json (JObj [(''paging'', JObj [(''count'', JNum 25)]),
                       (''elements'', JStr ''none'')])\<rparr>, w))
        [JStr ''https://x/voyager/api/jobs/jobPostings/7''] ((), [(JStr ''1'', JObj [])])
      = (Inr \<lparr>ok = True, body = Json (JObj [(''paging'', JObj [(''count'', JNum 25)]),
                       (''elements'', JStr ''none'')])\<rparr>, ((), [(JStr ''1'', JObj [])]))"
proof -
  let ?d = "JObj [(''paging'', JObj [(''count'', JNum 25)]), (''elements'', JStr ''none'')]"
  have u: "unrecognized ?d"
    by (simp add: unrecognized_def opt_prop_def)
  have j: "json_body \<lparr>ok = True, body = Json ?d\<rparr> = Some ?d"
    by (simp add: json_body_def)
  note t = unrecognized_payload_ignored[OF u, where fmt = "\<lambda>v. Inr ''date''"
      and c = "[(JStr ''1'', JObj [])]"
      and orig = "\<lambda>args w. (Inr \<lparr>ok = True, body = Json ?d\<rparr>, w)"
      and args = "[JStr ''https://x/voyager/api/jobs/jobPostings/7'']"
      and w = "((), [(JStr ''1'', JObj [])])" and h = "()"
      and resp = "\<lparr>ok = True, body = Json ?d\<rparr>"]
  from t j have "wrapped_fetch (\<lambda>v. Inr ''date'')
        (\<lambda>args w. (Inr \<lparr>ok = True, body = Json ?d\<rparr>, w))
        [JStr ''https://x/voyager/api/jobs/jobPostings/7''] ((), [(JStr ''1'', JObj [])])
      = (Inr \<lparr>ok = True, body = Json ?d\<rparr>, ((), [(JStr ''1'', JObj [])]))"
    by simp
  with t u j show ?thesis by blast
qed


text \<open>
  Claim C10. Of every entry that has an id (and whose timestamps the browser formats),
  either script stores a record, by the entry loop and by \<^verbatim>\<open>processJobData\<close> on a payload
  holding the entry; the record is in the cache under the entry's id and \<^verbatim>\<open>get\<close> returns
  it. When the entry's \<^verbatim>\<open>views\<close> is the integer 0, the record's \<^verbatim>\<open>views\<close> is the string
  \<^verbatim>\<open>'N/A'\<close> and so is the third row of the panel rendered from it; likewise for
  \<^verbatim>\<open>applies\<close> and the fourth row. An entry with a zero count and the same entry without
  that count leave the same cache, or fail alike: the cache does not tell them apart.
\<close>

theorem zero_count_stored_as_placeholder:
  "(entry_id extractJobId j k \<and> formats fmt j timestamp_fields \<longrightarrow>
      (\<exists>r. store_job fmt j c = Inr (cache_set k r c)
         \<and> processJobData fmt (JArr [j]) c = (None, cache_set k r c)
         \<and> (k, r) \<in> set (cache_set k r c)
         \<and> (primitive k \<longrightarrow> cache_get k (cache_set k r c) = Some r)
         \<and> (opt_prop j ''views'' = JNum 0 \<longrightarrow>
               opt_prop r ''views'' = JStr ''N/A'' \<and> panel_rows r ! 2 = JStr ''N/A'')
         \<and> (opt_prop j ''applies'' = JNum 0 \<longrightarrow>
               opt_prop r ''applies'' = JStr ''N/A'' \<and> panel_rows r ! 3 = JStr ''N/A'')))
   \<and> (entry_id extractJobId_exe j k \<and> formats fmt j timestamp_fields_exe \<longrightarrow>
      (\<exists>r. store_job_exe fmt j c = Inr (cache_set k r c)
         \<and> processJobData_exe fmt (JArr [j]) c = (None, cache_set k r c)
         \<and> (k, r) \<in> set (cache_set k r c)
         \<and> (primitive k \<longrightarrow> cache_get k (cache_set k r c) = Some r)
         \<and> (opt_prop j ''views'' = JNum 0 \<longrightarrow>
               opt_prop r ''views'' = JStr ''N/A'' \<and> panel_rows r ! 2 = JStr ''N/A'')
         \<and> (opt_prop j ''applies'' = JNum 0 \<longrightarrow>
               opt_prop r ''applies'' = JStr ''N/A'' \<and> panel_rows r ! 3 = JStr ''N/A'')))
   \<and> (map_of fs ''views'' = None \<longrightarrow>
        store_job fmt (JObj ((''views'', JNum 0) # fs)) c = store_job fmt (JObj fs) c
        \<and> store_job_exe fmt (JObj ((''views'', JNum 0) # fs)) c = store_job_exe fmt (JObj fs) c)
   \<and> (map_of fs ''applies'' = None \<longrightarrow>
        store_job fmt (JObj ((''applies'', JNum 0) # fs)) c = store_job fmt (JObj fs) c
        \<and> store_job_exe fmt (JObj ((''applies'', JNum 0) # fs)) c = store_job_exe fmt (JObj fs) c)"
  using store_zero[of j k fmt c] store_zero_exe[of j k fmt c]
    store_job_zero_views[of fs fmt c] store_job_zero_applies[of fs fmt c]
  by blast


theorem zero_count_stored_as_placeholder_witness:
  "entry_id extractJobId zero_entry (JStr ''42'') \<and> formats sample_fmt zero_entry timestamp_fields
   \<and> entry_id extractJobId_exe zero_entry (JStr ''42'')
   \<and> formats sample_fmt zero_entry timestamp_fields_exe
   \<and> primitive (JStr ''42'')
   \<and> opt_prop zero_entry ''views'' = JNum 0 \<and> opt_prop zero_entry ''applies'' = JNum 0
   \<and> store_job sample_fmt zero_entry [] =
       Inr [(JStr ''42'',
         JObj [(''id'', JStr ''42''), (''listedAt'', JStr ''N/A''), (''expireAt'', JStr ''N/A''),
               (''originalListedAt'', JStr ''N/A''), (''views'', JStr ''N/A''),
               (''applies'', JStr ''N/A''), (''title'', JStr ''Unknown''),
               (''company'', JStr ''Unknown'')])]
   \<and> processJobData sample_fmt (JArr [zero_entry]) [] =
       (None, [(JStr ''42'',
         JObj [(''id'', JStr ''42''), (''listedAt'', JStr ''N/A''), (''expireAt'', JStr ''N/A''),
               (''originalListedAt'', JStr ''N/A''), (''views'', JStr ''N/A''),
               (''applies'', JStr ''N/A''), (''title'', JStr ''Unknown''),
               (''company'', JStr ''Unknown'')])])
   \<and> (\<exists>r. cache_get (JStr ''42'') (snd (processJobData sample_fmt (JArr [zero_entry]) [])) = Some r
         \<and> opt_prop r ''views'' = JStr ''N/A'' \<and> opt_prop r ''applies'' = JStr ''N/A''
         \<and> panel_rows r ! 2 = JStr ''N/A'' \<and> panel_rows r ! 3 = JStr ''N/A'')
   \<and> store_job_exe sample_fmt zero_entry [] =
       Inr [(JStr ''42'',
         JObj [(''id'', JStr ''42''), (''listedAt'', JStr ''N/A''), (''expireAt'', JStr ''N/A''),
               (''views'', JStr ''N/A''), (''applies'', JStr ''N/A'')])]
   \<and> processJobData_exe sample_fmt (JArr [zero_entry]) [] =
       (None, [(JStr ''42'',
         JObj [(''id'', JStr ''42''), (''listedAt'', JStr ''N/A''), (''expireAt'', JStr ''N/A''),
               (''views'', JStr ''N/A''), (''applies'', JStr ''N/A'')])])
   \<and> (\<exists>r. cache_get (JStr ''42'') (snd (processJobData_exe sample_fmt (JArr [zero_entry]) []))
           = Some r
         \<and> opt_prop r ''views'' = JStr ''N/A'' \<and> opt_prop r ''applies'' = JStr ''N/A''
         \<and> panel_rows r ! 2 = JStr ''N/A'' \<and> panel_rows r ! 3 = JStr ''N/A'')
   \<and> map_of [(''jobPostingId'', JStr ''42'')] ''views'' = None
   \<and> map_of [(''jobPostingId'', JStr ''42'')] ''applies'' = None
   \<and> store_job sample_fmt (JObj [(''views'', JNum 0), (''jobPostingId'', JStr ''42'')]) []
       = store_job sample_fmt (JObj [(''jobPostingId'', JStr ''42'')]) []
   \<and> store_job sample_fmt (JObj [(''jobPostingId'', JStr ''42'')]) [] =
       Inr [(JStr ''42'',
         JObj [(''id'', JStr ''42''), (''listedAt'', JStr ''N/A''), (''expireAt'', JStr ''N/A''),
               (''originalListedAt'', JStr ''N/A''), (''views'', JStr ''N/A''),
               (''applies'', JStr ''N/A''), (''title'', JStr ''Unknown''),
               (''company'', JStr ''Unknown'')])]
   \<and> store_job_exe sample_fmt (JObj [(''applies'', JNum 0), (''jobPostingId'', JStr ''42'')]) []
       = store_job_exe sample_fmt (JObj [(''jobPostingId'', JStr ''42'')]) []
   \<and> store_job_exe sample_fmt (JObj [(''jobPostingId'', JStr ''42'')]) [] =
       Inr [(JStr ''42'',
         JObj [(''id'', JStr ''42''), (''listedAt'', JStr ''N/A''), (''expireAt'', JStr ''N/A''),
               (''views'', JStr ''N/A''), (''applies'', JStr ''N/A'')])]"
proof -
  let ?k = "JStr ''42''"
  let ?fs = "[(''jobPostingId'', JStr ''42'')]"
  let ?R = "JObj [(''id'', JStr ''42''), (''listedAt'', JStr ''N/A''), (''expireAt'', JStr ''N/A''),
               (''originalListedAt'', JStr ''N/A''), (''views'', JStr ''N/A''),
               (''applies'', JStr ''N/A''), (''title'', JStr ''Unknown''),
               (''company'', JStr ''Unknown'')]"
  let ?Q = "JObj [(''id'', JStr ''42''), (''listedAt'', JStr ''N/A''), (''expireAt'', JStr ''N/A''),
               (''views'', JStr ''N/A''), (''applies'', JStr ''N/A'')]"
  note t = zero_count_stored_as_placeholder[where j = zero_entry and k = ?k
      and fmt = sample_fmt and c = "[]" and fs = ?fs]
  have p: "primitive ?k" by simp
  have z: "opt_prop zero_entry ''views'' = JNum 0" "opt_prop zero_entry ''applies'' = JNum 0"
    by (simp_all add: zero_entry_def opt_prop_def)
  have m: "map_of ?fs ''views'' = None" "map_of ?fs ''applies'' = None"
    by simp_all
  have plain: "store_job sample_fmt (JObj ?fs) [] = Inr [(?k, ?R)]"
    "store_job_exe sample_fmt (JObj ?fs) [] = Inr [(?k, ?Q)]"
    by (simp_all add: store_defs)
  from t sample_entry_ids(1) sample_formats(1) p z obtain r where
    r: "store_job sample_fmt zero_entry [] = Inr (cache_set ?k r [])"
    "processJobData sample_fmt (JArr [zero_entry]) [] = (None, cache_set ?k r [])"
    "cache_get ?k (cache_set ?k r []) = Some r"
    "opt_prop r ''views'' = JStr ''N/A''" "panel_rows r ! 2 = JStr ''N/A''"
    "opt_prop r ''applies'' = JStr ''N/A''" "panel_rows r ! 3 = JStr ''N/A''"
    by blast
  from r(1) store_zero_entry(1) have r_eq: "r = ?R" by simp
  from t sample_entry_ids(2) sample_formats(2) p z obtain q where
    q: "store_job_exe sample_fmt zero_entry [] = Inr (cache_set ?k q [])"
    "processJobData_exe sample_fmt (JArr [zero_entry]) [] = (None, cache_set ?k q [])"
    "cache_get ?k (cache_set ?k q []) = Some q"
    "opt_prop q ''views'' = JStr ''N/A''" "panel_rows q ! 2 = JStr ''N/A''"
    "opt_prop q ''applies'' = JStr ''N/A''" "panel_rows q ! 3 = JStr ''N/A''"
    by blast
  from q(1) store_zero_entry(2) have q_eq: "q = ?Q" by simp
  from r r_eq have 1: "processJobData sample_fmt (JArr [zero_entry]) [] = (None, [(?k, ?R)])"
    by simp
  from r have 2: "\<exists>r. cache_get ?k (snd (processJobData sample_fmt (JArr [zero_entry]) [])) = Some r
         \<and> opt_prop r ''views'' = JStr ''N/A'' \<and> opt_prop r ''applies'' = JStr ''N/A''
         \<and> panel_rows r ! 2 = JStr ''N/A'' \<and> panel_rows r ! 3 = JStr ''N/A''"
    by (metis snd_conv)
  from q q_eq have 3: "processJobData_exe sample_fmt (JArr [zero_entry]) [] = (None, [(?k, ?Q)])"
    by simp
  from q have 4: "\<exists>r. cache_get ?k (snd (processJobData_exe sample_fmt (JArr [zero_entry]) []))
           = Some r
         \<and> opt_prop r ''views'' = JStr ''N/A'' \<and> opt_prop r ''applies'' = JStr ''N/A''
         \<and> panel_rows r ! 2 = JStr ''N/A'' \<and> panel_rows r ! 3 = JStr ''N/A''"
    by (metis snd_conv)
  from t m have 5:
    "store_job sample_fmt (JObj ((''views'', JNum 0) # ?fs)) [] = store_job sample_fmt (JObj ?fs) []"
    "store_job_exe sample_fmt (JObj ((''applies'', JNum 0) # ?fs)) []
       = store_job_exe sample_fmt (JObj ?fs) []"
    by blast+
  from sample_entry_ids(1,2) sample_formats p z store_zero_entry 1 2 3 4 m 5 plain
  show ?thesis by blast
qed

text \<open>
  Claim C7. The ids are those that JavaScript compares by value (strings, numbers,
  booleans; the specification's record id is a string). \<^verbatim>\<open>get\<close> after \<^verbatim>\<open>set\<close> with the
  same id returns the record that was set. A second \<^verbatim>\<open>set\<close> with the same id leaves the
  cache that the second \<^verbatim>\<open>set\<close> alone leaves, and \<^verbatim>\<open>get\<close> then returns the second record
  as it is: a field the second record lacks reads \<^verbatim>\<open>undefined\<close>, whatever the first
  held. At the harvest, in both scripts: two entries with the same id (whose timestamps
  the browser formats) are both stored, one after the other or in one payload; \<^verbatim>\<open>get\<close>
  returns the first record after the first write, and after the second the record built
  from the second entry alone, whose \<^verbatim>\<open>views\<close>, \<^verbatim>\<open>applies\<close> and \<^verbatim>\<open>title\<close> are the second
  entry's or the placeholder.
\<close>

theorem cache_put_get_last_write_wins:
  "(primitive k \<longrightarrow>
      cache_get k (cache_set k r c) = Some r
      \<and> cache_set k r2 (cache_set k r1 c) = cache_set k r2 c
      \<and> cache_get k (cache_set k r2 (cache_set k r1 c)) = Some r2)
   \<and> (primitive k \<and> map_of fs2 f = None \<longrightarrow>
        cache_get k (cache_set k (JObj fs2) (cache_set k (JObj fs1) c)) = Some (JObj fs2)
        \<and> opt_prop (JObj fs2) f = JUndefined)
   \<and> (primitive k \<and> entry_id extractJobId j1 k \<and> entry_id extractJobId j2 k
        \<and> formats fmt j1 timestamp_fields \<and> formats fmt j2 timestamp_fields \<longrightarrow>
        (\<exists>ra rb. store_job fmt j1 c = Inr (cache_set k ra c)
           \<and> cache_get k (cache_set k ra c) = Some ra
           \<and> store_job fmt j2 (cache_set k ra c) = Inr (cache_set k rb c)
           \<and> processJobData fmt (JArr [j1, j2]) c = (None, cache_set k rb c)
           \<and> job_record fmt k j2 = Inr rb
           \<and> cache_get k (cache_set k rb c) = Some rb
           \<and> opt_prop rb ''views'' = js_or (opt_prop j2 ''views'') (JStr ''N/A'')
           \<and> opt_prop rb ''applies'' = js_or (opt_prop j2 ''applies'') (JStr ''N/A'')
           \<and> opt_prop rb ''title'' = js_or (opt_prop j2 ''title'') (JStr ''Unknown'')))
   \<and> (primitive k \<and> entry_id extractJobId_exe j1 k \<and> entry_id extractJobId_exe j2 k
        \<and> formats fmt j1 timestamp_fields_exe \<and> formats fmt j2 timestamp_fields_exe \<longrightarrow>
        (\<exists>ra rb. store_job_exe fmt j1 c = Inr (cache_set k ra c)
           \<and> cache_get k (cache_set k ra c) = Some ra
           \<and> store_job_exe fmt j2 (cache_set k ra c) = Inr (cache_set k rb c)
           \<and> processJobData_exe fmt (JArr [j1, j2]) c = (None, cache_set k rb c)
           \<and> job_record_exe fmt k j2 = Inr rb
           \<and> cache_get k (cache_set k rb c) = Some rb
           \<and> opt_prop rb ''views'' = js_or (opt_prop j2 ''views'') (JStr ''N/A'')
           \<and> opt_prop rb ''applies'' = js_or (opt_prop j2 ''applies'') (JStr ''N/A'')))"
proof -
  have a: "primitive k \<Longrightarrow> cache_get k (cache_set k r c) = Some r
      \<and> cache_set k r2 (cache_set k r1 c) = cache_set k r2 c
      \<and> cache_get k (cache_set k r2 (cache_set k r1 c)) = Some r2"
    by (simp add: cache_get_set cache_set_twice)
  have b: "primitive k \<Longrightarrow> map_of fs2 f = None \<Longrightarrow>
      cache_get k (cache_set k (JObj fs2) (cache_set k (JObj fs1) c)) = Some (JObj fs2)
      \<and> opt_prop (JObj fs2) f = JUndefined"
    by (simp add: cache_get_set cache_set_twice opt_prop_def)
  from a b store_twice[of k j1 j2 fmt c] store_twice_exe[of k j1 j2 fmt c]
  show ?thesis by blast
qed

theorem cache_put_get_last_write_wins_witness:
  "primitive (JStr ''42'')
   \<and> map_of [(''applies'', JNum 3)] ''views'' = None
   \<and> cache_get (JStr ''42'')
        (cache_set (JStr ''42'') (JObj [(''applies'', JNum 3)])
          (cache_set (JStr ''42'') (JObj [(''views'', JNum 10)]) [(JStr ''7'', JNull)]))
       = Some (JObj [(''applies'', JNum 3)])
   \<and> cache_set (JStr ''42'') (JObj [(''applies'', JNum 3)])
          (cache_set (JStr ''42'') (JObj [(''views'', JNum 10)]) [(JStr ''7'', JNull)])
       = [(JStr ''7'', JNull), (JStr ''42'', JObj [(''applies'', JNum 3)])]
   \<and> opt_prop (JObj [(''applies'', JNum 3)]) ''views'' = JUndefined
   \<and> entry_id extractJobId first_write (JStr ''42'')
   \<and> entry_id extractJobId second_write (JStr ''42'')
   \<and> formats sample_fmt first_write timestamp_fields
   \<and> formats sample_fmt second_write timestamp_fields
   \<and> entry_id extractJobId_exe first_write (JStr ''42'')
   \<and> entry_id extractJobId_exe second_write (JStr ''42'')
   \<and> formats sample_fmt first_write timestamp_fields_exe
   \<and> formats sample_fmt second_write timestamp_fields_exe
   \<and> store_job sample_fmt first_write [] =
       Inr [(JStr ''42'',
         JObj [(''id'', JStr ''42''), (''listedAt'', JStr ''N/A''), (''expireAt'', JStr ''N/A''),
               (''originalListedAt'', JStr ''N/A''), (''views'', JNum 10),
               (''applies'', JStr ''N/A''), (''title'', JStr ''Engineer''),
               (''company'', JStr ''Unknown'')])]
   \<and> processJobData sample_fmt (JArr [first_write, second_write]) [] =
       (None, [(JStr ''42'',
         JObj [(''id'', JStr ''42''), (''listedAt'', JStr ''N/A''), (''expireAt'', JStr ''N/A''),
               (''originalListedAt'', JStr ''N/A''), (''views'', JStr ''N/A''),
               (''applies'', JNum 3), (''title'', JStr ''Unknown''),
               (''company'', JStr ''Unknown'')])])
   \<and> (\<exists>r. cache_get (JStr ''42'')
             (snd (processJobData sample_fmt (JArr [first_write, second_write]) [])) = Some r
         \<and> opt_prop r ''views'' = JStr ''N/A'' \<and> opt_prop r ''applies'' = JNum 3
         \<and> opt_prop r ''title'' = JStr ''Unknown'')
   \<and> store_job_exe sample_fmt first_write [] =
       Inr [(JStr ''42'',
         JObj [(''id'', JStr ''42''), (''listedAt'', JStr ''N/A''), (''expireAt'', JStr ''N/A''),
               (''views'', JNum 10), (''applies'', JStr ''N/A'')])]
   \<and> processJobData_exe sample_fmt (JArr [first_write, second_write]) [] =
       (None, [(JStr ''42'',
         JObj [(''id'', JStr ''42''), (''listedAt'', JStr ''N/A''), (''expireAt'', JStr ''N/A''),
               (''views'', JStr ''N/A''), (''applies'', JNum 3)])])
   \<and> (\<exists>r. cache_get (JStr ''42'')
             (snd (processJobData_exe sample_fmt (JArr [first_write, second_write]) [])) = Some r
         \<and> opt_prop r ''views'' = JStr ''N/A'' \<and> opt_prop r ''applies'' = JNum 3)"
proof -
  let ?k = "JStr ''42''"
  let ?c = "[(JStr ''7'', JNull)]"
  let ?R = "JObj [(''id'', JStr ''42''), (''listedAt'', JStr ''N/A''), (''expireAt'', JStr ''N/A''),
               (''originalListedAt'', JStr ''N/A''), (''views'', JStr ''N/A''),
               (''applies'', JNum 3), (''title'', JStr ''Unknown''),
               (''company'', JStr ''Unknown'')]"
  let ?Q = "JObj [(''id'', JStr ''42''), (''listedAt'', JStr ''N/A''), (''expireAt'', JStr ''N/A''),
               (''views'', JStr ''N/A''), (''applies'', JNum 3)]"
  note t = cache_put_get_last_write_wins[where k = ?k and r = JNull and ?r1.0 = JNull
      and ?r2.0 = JNull and c = ?c and ?fs1.0 = "[(''views'', JNum 10)]"
      and ?fs2.0 = "[(''applies'', JNum 3)]" and f = "''views''"
      and ?j1.0 = first_write and ?j2.0 = second_write and fmt = sample_fmt]
  note u = cache_put_get_last_write_wins[where k = ?k and r = JNull and ?r1.0 = JNull
      and ?r2.0 = JNull and c = "[]" and ?fs1.0 = "[(''views'', JNum 10)]"
      and ?fs2.0 = "[(''applies'', JNum 3)]" and f = "''views''"
      and ?j1.0 = first_write and ?j2.0 = second_write and fmt = sample_fmt]
  have p: "primitive ?k" by simp
  have m: "map_of [(''applies'', JNum 3)] ''views'' = None" by simp
  have w2: "opt_prop second_write ''views'' = JUndefined"
    "opt_prop second_write ''applies'' = JNum 3" "opt_prop second_write ''title'' = JUndefined"
    by (simp_all add: second_write_def opt_prop_def)
  from t p m have 1: "cache_get ?k (cache_set ?k (JObj [(''applies'', JNum 3)])
          (cache_set ?k (JObj [(''views'', JNum 10)]) ?c)) = Some (JObj [(''applies'', JNum 3)])"
    "opt_prop (JObj [(''applies'', JNum 3)]) ''views'' = JUndefined"
    by blast+
  have 2: "cache_set ?k (JObj [(''applies'', JNum 3)])
          (cache_set ?k (JObj [(''views'', JNum 10)]) ?c)
       = [(JStr ''7'', JNull), (?k, JObj [(''applies'', JNum 3)])]"
    by simp
  from u p sample_entry_ids(3,5) sample_formats(1) obtain ra rb where
    r: "processJobData sample_fmt (JArr [first_write, second_write]) [] = (None, cache_set ?k rb [])"
    "job_record sample_fmt ?k second_write = Inr rb"
    "cache_get ?k (cache_set ?k rb []) = Some rb"
    "opt_prop rb ''views'' = js_or (opt_prop second_write ''views'') (JStr ''N/A'')"
    "opt_prop rb ''applies'' = js_or (opt_prop second_write ''applies'') (JStr ''N/A'')"
    "opt_prop rb ''title'' = js_or (opt_prop second_write ''title'') (JStr ''Unknown'')"
    by blast
  have "job_record sample_fmt ?k second_write = Inr ?R"
    by (simp add: store_defs second_write_def)
  with r(2) have r_eq: "rb = ?R" by simp
  from r(1) r_eq have 3:
    "processJobData sample_fmt (JArr [first_write, second_write]) [] = (None, [(?k, ?R)])"
    by simp
  from r w2 have 4: "\<exists>r. cache_get ?k
             (snd (processJobData sample_fmt (JArr [first_write, second_write]) [])) = Some r
         \<and> opt_prop r ''views'' = JStr ''N/A'' \<and> opt_prop r ''applies'' = JNum 3
         \<and> opt_prop r ''title'' = JStr ''Unknown''"
    by (simp add: js_or_def)
  from u p sample_entry_ids(4,6) sample_formats(2) obtain qa qb where
    q: "processJobData_exe sample_fmt (JArr [first_write, second_write]) []
          = (None, cache_set ?k qb [])"
    "job_record_exe sample_fmt ?k second_write = Inr qb"
    "cache_get ?k (cache_set ?k qb []) = Some qb"
    "opt_prop qb ''views'' = js_or (opt_prop second_write ''views'') (JStr ''N/A'')"
    "opt_prop qb ''applies'' = js_or (opt_prop second_write ''applies'') (JStr ''N/A'')"
    by blast
  have "job_record_exe sample_fmt ?k second_write = Inr ?Q"
    by (simp add: store_defs second_write_def)
  with q(2) have q_eq: "qb = ?Q" by simp
  from q(1) q_eq have 5:
    "processJobData_exe sample_fmt (JArr [first_write, second_write]) [] = (None, [(?k, ?Q)])"
    by simp
  from q w2 have 6: "\<exists>r. cache_get ?k
             (snd (processJobData_exe sample_fmt (JArr [first_write, second_write]) [])) = Some r
         \<and> opt_prop r ''views'' = JStr ''N/A'' \<and> opt_prop r ''applies'' = JNum 3"
    by (simp add: js_or_def)
  from p m 1 2 sample_entry_ids(3-6) sample_formats store_two_writes(1,3) 3 4 5 6
  show ?thesis by blast
qed

section \<open>Properties of the Presenter and of the Lifecycle Controller\<close>

subsection \<open>The overlay invariant\<close>

lemma panel_inv_cases:
  "panel_inv s \<longleftrightarrow> tooltips s = [] \<or> (\<exists>p. tooltips s = [p] \<and> currentTooltip s = Some (ref p))"
  by (auto simp: panel_inv_def split: list.splits)

lemma panel_inv_new: "panel_inv new_instance"
  by (simp add: panel_inv_def new_instance_def)

lemma removeExistingTooltip_fields:
  "tooltips (removeExistingTooltip s) = []"
  "currentTooltip (removeExistingTooltip s) = None"
  "timers (removeExistingTooltip s) = timers s"
  "next_ref (removeExistingTooltip s) = next_ref s"
  "jobData (removeExistingTooltip s) = jobData s"
  "fetch_wrappers (removeExistingTooltip s) = fetch_wrappers s"
  "click_listeners (removeExistingTooltip s) = click_listeners s"
  "url_observers (removeExistingTooltip s) = url_observers s"
  "isInitialized (removeExistingTooltip s) = isInitialized s"
  "observer (removeExistingTooltip s) = observer s"
  by (simp_all add: removeExistingTooltip_def Let_def split: option.splits)

lemma removeExistingTooltip_exe_inv:
  "panel_inv s \<Longrightarrow> tooltips (removeExistingTooltip_exe s) = []"
  by (auto simp: panel_inv_cases removeExistingTooltip_exe_def remove_element_def
      split: option.splits)

lemma removeExistingTooltip_exe_fields:
  "currentTooltip (removeExistingTooltip_exe s) = None"
  "timers (removeExistingTooltip_exe s) = timers s"
  "next_ref (removeExistingTooltip_exe s) = next_ref s"
  "jobData (removeExistingTooltip_exe s) = jobData s"
  "fetch_wrappers (removeExistingTooltip_exe s) = fetch_wrappers s"
  "isInitialized (removeExistingTooltip_exe s) = isInitialized s"
  by (simp_all add: removeExistingTooltip_exe_def split: option.splits)

lemma show_shown:
  assumes "cache_get (JStr jobId) (jobData s) = Some jobInfo"
  shows "\<exists>p. tooltips (snd (showJobInsightsForId lay jobId s)) = [p]
           \<and> ref p = next_ref s \<and> rows p = panel_rows jobInfo
           \<and> currentTooltip (snd (showJobInsightsForId lay jobId s)) = Some (ref p)"
  using assms
  by (auto simp: showJobInsightsForId_def Let_def removeExistingTooltip_fields set_position_def
      split: option.splits)

lemma show_other_fields:
  "jobData (snd (showJobInsightsForId lay jobId s)) = jobData s"
  "fetch_wrappers (snd (showJobInsightsForId lay jobId s)) = fetch_wrappers s"
  "isInitialized (snd (showJobInsightsForId lay jobId s)) = isInitialized s"
  by (simp_all add: showJobInsightsForId_def Let_def removeExistingTooltip_fields
      split: option.splits)

lemma show_timers:
  "set (timers s) \<subseteq> set (timers (snd (showJobInsightsForId lay jobId s)))"
  by (auto simp: showJobInsightsForId_def Let_def removeExistingTooltip_fields
      split: option.splits)

lemma show_arms_timer:
  assumes "cache_get (JStr jobId) (jobData s) = Some jobInfo" and "anchor lay = Some rect"
  shows "next_ref s \<in> set (timers (snd (showJobInsightsForId lay jobId s)))"
  using assms
  by (simp add: showJobInsightsForId_def Let_def removeExistingTooltip_fields)

lemma show_inv: "panel_inv (snd (showJobInsightsForId lay jobId s))" if "panel_inv s"
proof (cases "cache_get (JStr jobId) (jobData s)")
  case None
  with that show ?thesis by (simp add: showJobInsightsForId_def)
next
  case (Some jobInfo)
  from show_shown[OF this, of lay] show ?thesis by (auto simp: panel_inv_cases)
qed

lemma show_exe_shown:
  assumes "panel_inv s" and "card_job_id jobCard loc = Some jobId"
    and "cache_get (JStr jobId) (jobData s) = Some jobInfo"
  shows "\<exists>p. tooltips (snd (showJobInsights_exe jobCard loc s)) = [p]
           \<and> ref p = next_ref s \<and> rows p = panel_rows jobInfo
           \<and> currentTooltip (snd (showJobInsights_exe jobCard loc s)) = Some (ref p)
           \<and> next_ref s \<in> set (timers (snd (showJobInsights_exe jobCard loc s)))"
  using assms
  by (simp add: showJobInsights_exe_def Let_def removeExistingTooltip_exe_inv
      removeExistingTooltip_exe_fields)

lemma show_exe_other_fields:
  "jobData (snd (showJobInsights_exe jobCard loc s)) = jobData s"
  "fetch_wrappers (snd (showJobInsights_exe jobCard loc s)) = fetch_wrappers s"
  "isInitialized (snd (showJobInsights_exe jobCard loc s)) = isInitialized s"
  by (simp_all add: showJobInsights_exe_def Let_def removeExistingTooltip_exe_fields
      split: option.splits)

lemma show_exe_timers:
  "set (timers s) \<subseteq> set (timers (snd (showJobInsights_exe jobCard loc s)))"
  by (auto simp: showJobInsights_exe_def Let_def removeExistingTooltip_exe_fields
      split: option.splits)

lemma show_exe_inv: "panel_inv (snd (showJobInsights_exe jobCard loc s))" if "panel_inv s"
proof (cases "card_job_id jobCard loc")
  case None
  with that show ?thesis by (simp add: showJobInsights_exe_def)
next
  case (Some jobId)
  show ?thesis
  proof (cases "cache_get (JStr jobId) (jobData s)")
    case None
    with Some that show ?thesis by (simp add: showJobInsights_exe_def)
  next
    case (Some jobInfo)
    from show_exe_shown[OF that \<open>card_job_id jobCard loc = Some jobId\<close> this]
    show ?thesis by (auto simp: panel_inv_cases)
  qed
qed

lemma close_inv: "panel_inv s \<Longrightarrow> panel_inv (s\<lparr>tooltips := remove_element r (tooltips s)\<rparr>)"
  unfolding panel_inv_cases by (cases "tooltips s") (auto simp: remove_element_def)

lemma step_inv: "panel_inv s \<Longrightarrow> panel_inv (step fmt e s)"
proof (cases e)
  case (ShowId lay jobId)
  assume "panel_inv s"
  with ShowId show ?thesis by (simp add: show_inv)
next
  case (Close r)
  assume "panel_inv s"
  with Close show ?thesis by (simp add: close_inv)
qed (auto simp: panel_inv_cases init_def interceptNetworkRequests_def setupJobClickHandlers_def
      observePageChanges_def destroy_def Let_def removeExistingTooltip_fields on_timeout_def
      split: option.splits)

lemma step_exe_inv: "panel_inv s \<Longrightarrow> panel_inv (step_exe fmt e s)"
proof (cases e)
  case (ShowCard jobCard loc)
  assume "panel_inv s"
  with ShowCard show ?thesis by (simp add: show_exe_inv)
next
  case (Close_exe r)
  assume "panel_inv s"
  with Close_exe show ?thesis by (simp add: close_inv)
next
  case (Timeout_exe r)
  assume "panel_inv s"
  then have "panel_inv (s\<lparr>timers := remove1 r (timers s)\<rparr>)"
    by (simp add: panel_inv_cases)
  from removeExistingTooltip_exe_inv[OF this] Timeout_exe \<open>panel_inv s\<close> show ?thesis
    by (simp add: on_timeout_exe_def panel_inv_cases)
qed (auto simp: panel_inv_cases init_exe_def interceptNetworkRequests_def
      setupJobClickHandlers_exe_def)

lemma run_inv: "panel_inv s \<Longrightarrow> panel_inv (run fmt es s)"
  by (induction es arbitrary: s) (auto simp: step_inv)

lemma run_exe_inv: "panel_inv s \<Longrightarrow> panel_inv (run_exe fmt es s)"
  by (induction es arbitrary: s) (auto simp: step_exe_inv)

lemma panel_inv_length: "panel_inv s \<Longrightarrow> length (tooltips s) \<le> 1"
  by (auto simp: panel_inv_cases)

subsection \<open>Evaluating the sample run\<close>

lemmas presenter_defs = showJobInsightsForId_def showJobInsights_exe_def removeExistingTooltip_def
  removeExistingTooltip_exe_def on_timeout_def on_timeout_exe_def remove_element_def
  set_position_def place_def panel_rows_def card_job_id_def nonempty_def card_by_id_def

lemmas lifecycle_defs = init_def init_exe_def destroy_def interceptNetworkRequests_def
  setupJobClickHandlers_def setupJobClickHandlers_exe_def observePageChanges_def new_instance_def

lemmas harvest_defs = processJobData_def processJobData_exe_def select_jobs_def select_jobs_exe_def
  store_job_def store_job_exe_def job_id_def job_id_exe_def job_record_def job_record_exe_def
  convertTimestamp_def try_catch_def js_or_def opt_prop_def harvest_def json_body_def

lemmas sample_defs = sample_fmt_def sample_payload_def sample_layout_def no_anchor_layout_def
  sample_page_def sample_url_def

lemma sample_state:
  "run sample_fmt [Init, Harvest sample_payload] new_instance =
     \<lparr>jobData = [(JStr ''1'', JObj [(''id'', JStr ''1''), (''listedAt'', JStr ''N/A''),
                    (''expireAt'', JStr ''N/A''), (''originalListedAt'', JStr ''N/A''),
                    (''views'', JNum 10), (''applies'', JStr ''N/A''),
                    (''title'', JStr ''Unknown''), (''company'', JStr ''Unknown'')]),
                 (JStr ''2'', JObj [(''id'', JStr ''2''), (''listedAt'', JStr ''N/A''),
                    (''expireAt'', JStr ''N/A''), (''originalListedAt'', JStr ''N/A''),
                    (''views'', JNum 20), (''applies'', JStr ''N/A''),
                    (''title'', JStr ''Unknown''), (''company'', JStr ''Unknown'')])],
      isInitialized = True, observer = Some True, currentTooltip = None,
      fetch_wrappers = 1, click_listeners = 1, url_observers = 1, tooltips = [],
      timers = [], next_ref = 0\<rparr>"
  by (simp add: lifecycle_defs harvest_defs sample_defs)

lemma sample_state_exe:
  "run_exe sample_fmt [Init_exe, Harvest_exe sample_payload] new_instance =
     \<lparr>jobData = [(JStr ''1'', JObj [(''id'', JStr ''1''), (''listedAt'', JStr ''N/A''),
                    (''expireAt'', JStr ''N/A''), (''views'', JNum 10), (''applies'', JStr ''N/A'')]),
                 (JStr ''2'', JObj [(''id'', JStr ''2''), (''listedAt'', JStr ''N/A''),
                    (''expireAt'', JStr ''N/A''), (''views'', JNum 20), (''applies'', JStr ''N/A'')])],
      isInitialized = True, observer = None, currentTooltip = None,
      fetch_wrappers = 1, click_listeners = 1, url_observers = 0, tooltips = [],
      timers = [], next_ref = 0\<rparr>"
  by (simp add: lifecycle_defs harvest_defs sample_defs)

lemma run_append: "run fmt (es @ es') s = run fmt es' (run fmt es s)"
  by (induction es arbitrary: s) auto

lemma run_exe_append: "run_exe fmt (es @ es') s = run_exe fmt es' (run_exe fmt es s)"
  by (induction es arbitrary: s) auto

lemma sample_shown_once:
  "run sample_fmt [Init, Harvest sample_payload, ShowId sample_layout ''1''] new_instance =
     (run sample_fmt [Init, Harvest sample_payload] new_instance)
       \<lparr>currentTooltip := Some 0,
        tooltips := [\<lparr>ref = 0, rows = [JStr ''N/A'', JStr ''N/A'', JNum 10, JStr ''N/A''],
                      position = Some (580, 120)\<rparr>],
        timers := [0], next_ref := 1\<rparr>"
  by (simp add: lifecycle_defs harvest_defs sample_defs presenter_defs)

lemma sample_shown_twice:
  "run sample_fmt
     [Init, Harvest sample_payload, ShowId sample_layout ''1'', ShowId sample_layout ''2'']
     new_instance =
     (run sample_fmt [Init, Harvest sample_payload] new_instance)
       \<lparr>currentTooltip := Some 1,
        tooltips := [\<lparr>ref = 1, rows = [JStr ''N/A'', JStr ''N/A'', JNum 20, JStr ''N/A''],
                      position = Some (580, 120)\<rparr>],
        timers := [0, 1], next_ref := 2\<rparr>"
  by (simp add: lifecycle_defs harvest_defs sample_defs presenter_defs)

lemma sample_cache:
  "jobData (run sample_fmt [Init, Harvest sample_payload] new_instance)
     = [(JStr ''1'', stored_sample ''1'' 10), (JStr ''2'', stored_sample ''2'' 20)]"
  "jobData (run_exe sample_fmt [Init_exe, Harvest_exe sample_payload] new_instance)
     = [(JStr ''1'', stored_sample_exe ''1'' 10), (JStr ''2'', stored_sample_exe ''2'' 20)]"
  unfolding sample_state sample_state_exe
  by (simp_all add: stored_sample_def stored_sample_exe_def)

subsection \<open>One overlay, showing the latest record\<close>

lemma two_shows:
  assumes "cache_get (JStr a) (jobData s) = Some ia" and "cache_get (JStr b) (jobData s) = Some ib"
  shows "(\<exists>p. tooltips (snd (showJobInsightsForId la a s)) = [p] \<and> ref p = next_ref s)
    \<and> (\<exists>p. tooltips (snd (showJobInsightsForId lb b (snd (showJobInsightsForId la a s)))) = [p]
          \<and> rows p = panel_rows ib)
    \<and> (anchor la = Some rect \<longrightarrow>
          next_ref s \<in> set (timers (snd (showJobInsightsForId lb b
             (snd (showJobInsightsForId la a s))))))"
proof -
  let ?s1 = "snd (showJobInsightsForId la a s)"
  have b1: "cache_get (JStr b) (jobData ?s1) = Some ib"
    using assms(2) by (simp add: show_other_fields)
  from show_shown[OF assms(1), of la] have 1: "\<exists>p. tooltips ?s1 = [p] \<and> ref p = next_ref s"
    by blast
  from show_shown[OF b1, of lb]
  have 2: "\<exists>p. tooltips (snd (showJobInsightsForId lb b ?s1)) = [p] \<and> rows p = panel_rows ib"
    by blast
  have 3: "anchor la = Some rect \<longrightarrow>
      next_ref s \<in> set (timers (snd (showJobInsightsForId lb b ?s1)))"
    using show_arms_timer[OF assms(1), of la rect] show_timers[of ?s1 lb b] by blast
  from 1 2 3 show ?thesis by blast
qed

lemma two_shows_exe:
  assumes "panel_inv s" and "card_job_id ca loca = Some a" and "card_job_id cb locb = Some b"
    and "cache_get (JStr a) (jobData s) = Some ia" and "cache_get (JStr b) (jobData s) = Some ib"
  shows "(\<exists>p. tooltips (snd (showJobInsights_exe ca loca s)) = [p] \<and> ref p = next_ref s)
    \<and> (\<exists>p. tooltips (snd (showJobInsights_exe cb locb (snd (showJobInsights_exe ca loca s)))) = [p]
          \<and> rows p = panel_rows ib)
    \<and> next_ref s \<in> set (timers (snd (showJobInsights_exe cb locb
             (snd (showJobInsights_exe ca loca s)))))"
proof -
  let ?s1 = "snd (showJobInsights_exe ca loca s)"
  have i1: "panel_inv ?s1" using assms(1) by (rule show_exe_inv)
  have b1: "cache_get (JStr b) (jobData ?s1) = Some ib"
    using assms(5) by (simp add: show_exe_other_fields)
  from show_exe_shown[OF assms(1,2,4)]
  have 1: "\<exists>p. tooltips ?s1 = [p] \<and> ref p = next_ref s" "next_ref s \<in> set (timers ?s1)"
    by blast+
  from show_exe_shown[OF i1 assms(3) b1]
  have 2: "\<exists>p. tooltips (snd (showJobInsights_exe cb locb ?s1)) = [p] \<and> rows p = panel_rows ib"
    by blast
  from 1 2 show_exe_timers[of ?s1 cb locb] show ?thesis by blast
qed

text \<open>
  Claim C4, as amended. In every reachable state of either script at most one overlay
  is in the document. Showing id A and then id B, both in the cache, leaves exactly one
  overlay, with B's fields in its rows. The timer armed for A's panel (in the richer
  script it is armed when the layout anchor is present) is still pending afterwards.
\<close>

theorem one_overlay_showing_latest:
  "length (tooltips (run fmt evs new_instance)) \<le> 1
   \<and> length (tooltips (run_exe fmt evs' new_instance)) \<le> 1
   \<and> (cache_get (JStr a) (jobData s) = Some ia \<and> cache_get (JStr b) (jobData s) = Some ib \<longrightarrow>
        (\<exists>p. tooltips (snd (showJobInsightsForId la a s)) = [p] \<and> ref p = next_ref s)
        \<and> (\<exists>p. tooltips (snd (showJobInsightsForId lb b (snd (showJobInsightsForId la a s)))) = [p]
              \<and> rows p = panel_rows ib)
        \<and> (anchor la = Some rect \<longrightarrow>
              next_ref s \<in> set (timers (snd (showJobInsightsForId lb b
                 (snd (showJobInsightsForId la a s)))))))
   \<and> (card_job_id ca loca = Some a \<and> card_job_id cb locb = Some b
        \<and> cache_get (JStr a) (jobData (run_exe fmt evs' new_instance)) = Some ia
        \<and> cache_get (JStr b) (jobData (run_exe fmt evs' new_instance)) = Some ib \<longrightarrow>
        (\<exists>p. tooltips (snd (showJobInsights_exe ca loca (run_exe fmt evs' new_instance))) = [p]
              \<and> ref p = next_ref (run_exe fmt evs' new_instance))
        \<and> (\<exists>p. tooltips (snd (showJobInsights_exe cb locb
                 (snd (showJobInsights_exe ca loca (run_exe fmt evs' new_instance))))) = [p]
              \<and> rows p = panel_rows ib)
        \<and> next_ref (run_exe fmt evs' new_instance)
            \<in> set (timers (snd (showJobInsights_exe cb locb
                 (snd (showJobInsights_exe ca loca (run_exe fmt evs' new_instance)))))))"
proof -
  have 1: "length (tooltips (run fmt evs new_instance)) \<le> 1"
    by (intro panel_inv_length run_inv panel_inv_new)
  have 2: "length (tooltips (run_exe fmt evs' new_instance)) \<le> 1"
    by (intro panel_inv_length run_exe_inv panel_inv_new)
  have i: "panel_inv (run_exe fmt evs' new_instance)"
    by (intro run_exe_inv panel_inv_new)
  from 1 2 two_shows[of a s ia b ib la lb rect]
    two_shows_exe[OF i, of ca loca a cb locb b ia ib]
  show ?thesis by blast
qed

theorem one_overlay_showing_latest_witness:
  "cache_get (JStr ''1'') (jobData (run sample_fmt [Init, Harvest sample_payload] new_instance))
     = Some (stored_sample ''1'' 10)
   \<and> cache_get (JStr ''2'') (jobData (run sample_fmt [Init, Harvest sample_payload] new_instance))
     = Some (stored_sample ''2'' 20)
   \<and> anchor sample_layout = Some (900, 100)
   \<and> (\<exists>p. tooltips (snd (showJobInsightsForId sample_layout ''2''
              (snd (showJobInsightsForId sample_layout ''1''
                (run sample_fmt [Init, Harvest sample_payload] new_instance))))) = [p]
          \<and> rows p = panel_rows (stored_sample ''2'' 20))
   \<and> next_ref (run sample_fmt [Init, Harvest sample_payload] new_instance)
        \<in> set (timers (snd (showJobInsightsForId sample_layout ''2''
              (snd (showJobInsightsForId sample_layout ''1''
                (run sample_fmt [Init, Harvest sample_payload] new_instance))))))
   \<and> card_job_id (card_by_id ''1'') ''https://x/jobs/'' = Some ''1''
   \<and> card_job_id (card_by_id ''2'') ''https://x/jobs/'' = Some ''2''
   \<and> cache_get (JStr ''1'')
        (jobData (run_exe sample_fmt [Init_exe, Harvest_exe sample_payload] new_instance))
       = Some (stored_sample_exe ''1'' 10)
   \<and> cache_get (JStr ''2'')
        (jobData (run_exe sample_fmt [Init_exe, Harvest_exe sample_payload] new_instance))
       = Some (stored_sample_exe ''2'' 20)
   \<and> (\<exists>p. tooltips (snd (showJobInsights_exe (card_by_id ''2'') ''https://x/jobs/''
              (snd (showJobInsights_exe (card_by_id ''1'') ''https://x/jobs/''
                (run_exe sample_fmt [Init_exe, Harvest_exe sample_payload] new_instance))))) = [p]
          \<and> rows p = panel_rows (stored_sample_exe ''2'' 20))
   \<and> next_ref (run_exe sample_fmt [Init_exe, Harvest_exe sample_payload] new_instance)
        \<in> set (timers (snd (showJobInsights_exe (card_by_id ''2'') ''https://x/jobs/''
              (snd (showJobInsights_exe (card_by_id ''1'') ''https://x/jobs/''
                (run_exe sample_fmt [Init_exe, Harvest_exe sample_payload] new_instance))))))"
proof -
  note t = one_overlay_showing_latest[where fmt = sample_fmt and evs = "[]"
      and evs' = "[Init_exe, Harvest_exe sample_payload]"
      and s = "run sample_fmt [Init, Harvest sample_payload] new_instance"
      and a = "''1''" and b = "''2''" and ia = "stored_sample ''1'' 10"
      and ib = "stored_sample ''2'' 20" and la = sample_layout and lb = sample_layout
      and rect = "(900, 100)" and ca = "card_by_id ''1''" and cb = "card_by_id ''2''"
      and loca = "''https://x/jobs/''" and locb = "''https://x/jobs/''"]
  note u = one_overlay_showing_latest[where fmt = sample_fmt and evs = "[]"
      and evs' = "[Init_exe, Harvest_exe sample_payload]"
      and s = "run sample_fmt [Init, Harvest sample_payload] new_instance"
      and a = "''1''" and b = "''2''" and ia = "stored_sample_exe ''1'' 10"
      and ib = "stored_sample_exe ''2'' 20" and la = sample_layout and lb = sample_layout
      and rect = "(900, 100)" and ca = "card_by_id ''1''" and cb = "card_by_id ''2''"
      and loca = "''https://x/jobs/''" and locb = "''https://x/jobs/''"]
  have h1: "cache_get (JStr ''1'') (jobData (run sample_fmt [Init, Harvest sample_payload] new_instance))
      = Some (stored_sample ''1'' 10)"
    "cache_get (JStr ''2'') (jobData (run sample_fmt [Init, Harvest sample_payload] new_instance))
      = Some (stored_sample ''2'' 20)"
    "cache_get (JStr ''1'')
        (jobData (run_exe sample_fmt [Init_exe, Harvest_exe sample_payload] new_instance))
       = Some (stored_sample_exe ''1'' 10)"
    "cache_get (JStr ''2'')
        (jobData (run_exe sample_fmt [Init_exe, Harvest_exe sample_payload] new_instance))
       = Some (stored_sample_exe ''2'' 20)"
    unfolding sample_cache by simp_all
  have h2: "anchor sample_layout = Some (900, 100)"
    "card_job_id (card_by_id ''1'') ''https://x/jobs/'' = Some ''1''"
    "card_job_id (card_by_id ''2'') ''https://x/jobs/'' = Some ''2''"
    by (simp_all add: sample_layout_def card_job_id_def card_by_id_def nonempty_def)
  from t u h1 h2 show ?thesis by blast
qed

text \<open>
  Against claim C4 as stated: after showing id 1 and then id 2, one overlay (the second
  panel) is in the document and the timer of the first panel is still pending.
\<close>

theorem replaced_panel_timer_still_pending:
  "map ref (tooltips (run sample_fmt
       [Init, Harvest sample_payload, ShowId sample_layout ''1'', ShowId sample_layout ''2'']
       new_instance)) = [1]
   \<and> timers (run sample_fmt
       [Init, Harvest sample_payload, ShowId sample_layout ''1'', ShowId sample_layout ''2'']
       new_instance) = [0, 1]"
proof -
  have "run sample_fmt
       [Init, Harvest sample_payload, ShowId sample_layout ''1'', ShowId sample_layout ''2'']
       new_instance
     = run sample_fmt [ShowId sample_layout ''1'', ShowId sample_layout ''2'']
         (run sample_fmt [Init, Harvest sample_payload] new_instance)"
    using run_append[of sample_fmt "[Init, Harvest sample_payload]"] by simp
  then show ?thesis
    unfolding sample_state by (simp add: presenter_defs sample_layout_def)
qed

subsection \<open>Auto-dismiss timers\<close>

lemma step_keeps_timer:
  "r \<in> set (timers s) \<Longrightarrow> e \<noteq> Timeout r \<Longrightarrow> r \<in> set (timers (step fmt e s))"
proof (cases e)
  case (ShowId lay jobId)
  assume "r \<in> set (timers s)"
  with show_timers[of s lay jobId] ShowId show ?thesis by auto
next
  case (Timeout r')
  assume "r \<in> set (timers s)" "e \<noteq> Timeout r"
  with Timeout show ?thesis
    by (auto simp: on_timeout_def removeExistingTooltip_fields)
qed (auto simp: init_def interceptNetworkRequests_def setupJobClickHandlers_def
      observePageChanges_def destroy_def Let_def removeExistingTooltip_fields split: option.splits)

lemma step_exe_keeps_timer:
  "r \<in> set (timers s) \<Longrightarrow> e \<noteq> Timeout_exe r \<Longrightarrow> r \<in> set (timers (step_exe fmt e s))"
proof (cases e)
  case (ShowCard jobCard loc)
  assume "r \<in> set (timers s)"
  with show_exe_timers[of s jobCard loc] ShowCard show ?thesis by auto
next
  case (Timeout_exe r')
  assume "r \<in> set (timers s)" "e \<noteq> Timeout_exe r"
  with Timeout_exe show ?thesis
    by (auto simp: on_timeout_exe_def removeExistingTooltip_exe_fields)
qed (auto simp: init_exe_def interceptNetworkRequests_def setupJobClickHandlers_exe_def)

lemma timeout_not_current:
  "currentTooltip s \<noteq> Some r \<Longrightarrow>
     tooltips (step fmt (Timeout r) s) = tooltips s
     \<and> currentTooltip (step fmt (Timeout r) s) = currentTooltip s"
  by (simp add: on_timeout_def)

lemma timeout_spares_others:
  assumes "panel_inv s" and "p \<in> set (tooltips s)" and "ref p \<noteq> r"
  shows "p \<in> set (tooltips (step fmt (Timeout r) s))"
proof -
  from assms have "currentTooltip s \<noteq> Some r"
    by (auto simp: panel_inv_cases)
  with timeout_not_current[of s r fmt] assms(2) show ?thesis by simp
qed

text \<open>
  Claim C3, as amended. Nothing cancels an auto-dismiss timer: a pending timer stays
  pending through every event but its own firing, so also when its panel is dismissed
  or replaced (both scripts). In the richer script a timer that fires removes something
  only when the panel it was armed for is still the current one: when that panel is not
  current, the overlays and the current panel are as before, and in every reachable
  state every overlay other than the timer's own survives the firing.
\<close>

theorem stale_timer_guarded:
  "(r \<in> set (timers s) \<and> e \<noteq> Timeout r \<longrightarrow> r \<in> set (timers (step fmt e s)))
   \<and> (r \<in> set (timers s) \<and> e' \<noteq> Timeout_exe r \<longrightarrow> r \<in> set (timers (step_exe fmt e' s)))
   \<and> (currentTooltip s \<noteq> Some r \<longrightarrow>
        tooltips (step fmt (Timeout r) s) = tooltips s
        \<and> currentTooltip (step fmt (Timeout r) s) = currentTooltip s)
   \<and> (p \<in> set (tooltips (run fmt evs new_instance)) \<and> ref p \<noteq> r \<longrightarrow>
        p \<in> set (tooltips (step fmt (Timeout r) (run fmt evs new_instance))))"
  using step_keeps_timer[of r s e fmt] step_exe_keeps_timer[of r s e' fmt]
    timeout_not_current[of s r fmt]
    timeout_spares_others[OF run_inv[OF panel_inv_new], of p fmt evs r]
  by blast

theorem stale_timer_guarded_witness:
  "0 \<in> set (timers (run sample_fmt [Init, Harvest sample_payload, ShowId sample_layout ''1'']
                     new_instance))
   \<and> ShowId sample_layout ''2'' \<noteq> Timeout 0
   \<and> 0 \<in> set (timers (step sample_fmt (ShowId sample_layout ''2'')
         (run sample_fmt [Init, Harvest sample_payload, ShowId sample_layout ''1''] new_instance)))
   \<and> Close_exe 0 \<noteq> Timeout_exe 0
   \<and> 0 \<in> set (timers (step_exe sample_fmt (Close_exe 0)
         (run sample_fmt [Init, Harvest sample_payload, ShowId sample_layout ''1''] new_instance)))
   \<and> currentTooltip (run sample_fmt [Init, Harvest sample_payload, ShowId sample_layout ''1'']
         new_instance) \<noteq> Some 7
   \<and> tooltips (step sample_fmt (Timeout 7)
         (run sample_fmt [Init, Harvest sample_payload, ShowId sample_layout ''1''] new_instance))
       = tooltips (run sample_fmt [Init, Harvest sample_payload, ShowId sample_layout ''1'']
           new_instance)
   \<and> \<lparr>ref = 1, rows = [JStr ''N/A'', JStr ''N/A'', JNum 20, JStr ''N/A''],
        position = Some (580, 120)\<rparr>
       \<in> set (tooltips (run sample_fmt
           [Init, Harvest sample_payload, ShowId sample_layout ''1'', ShowId sample_layout ''2'']
           new_instance))
   \<and> ref \<lparr>ref = 1, rows = [JStr ''N/A'', JStr ''N/A'', JNum 20, JStr ''N/A''],
        position = Some (580, 120)\<rparr> \<noteq> 0
   \<and> \<lparr>ref = 1, rows = [JStr ''N/A'', JStr ''N/A'', JNum 20, JStr ''N/A''],
        position = Some (580, 120)\<rparr>
       \<in> set (tooltips (step sample_fmt (Timeout 0) (run sample_fmt
           [Init, Harvest sample_payload, ShowId sample_layout ''1'', ShowId sample_layout ''2'']
           new_instance)))"
proof -
  let ?s1 = "run sample_fmt [Init, Harvest sample_payload, ShowId sample_layout ''1''] new_instance"
  let ?p = "\<lparr>ref = 1, rows = [JStr ''N/A'', JStr ''N/A'', JNum 20, JStr ''N/A''],
        position = Some (580, 120)\<rparr>"
  note a = stale_timer_guarded[where r = 0 and s = ?s1 and e = "ShowId sample_layout ''2''"
      and e' = "Close_exe 0" and fmt = sample_fmt and p = ?p and evs = "[]"]
  note b = stale_timer_guarded[where r = 7 and s = ?s1 and e = "ShowId sample_layout ''2''"
      and e' = "Close_exe 0" and fmt = sample_fmt and p = ?p and evs = "[]"]
  note c = stale_timer_guarded[where r = 0 and s = ?s1 and e = "ShowId sample_layout ''2''"
      and e' = "Close_exe 0" and fmt = sample_fmt and p = ?p
      and evs = "[Init, Harvest sample_payload, ShowId sample_layout ''1'', ShowId sample_layout ''2'']"]
  have h1: "0 \<in> set (timers ?s1)" "currentTooltip ?s1 \<noteq> Some 7"
    unfolding sample_shown_once by simp_all
  have h2: "ShowId sample_layout ''2'' \<noteq> Timeout 0" "Close_exe 0 \<noteq> Timeout_exe 0"
    by simp_all
  have h3: "?p \<in> set (tooltips (run sample_fmt
           [Init, Harvest sample_payload, ShowId sample_layout ''1'', ShowId sample_layout ''2'']
           new_instance))" "ref ?p \<noteq> 0"
    unfolding sample_shown_twice by simp_all
  from a b c h1 h2 h3 show ?thesis by blast
qed

text \<open>
  Against claim C3 as stated: after the panel of id 1 is dismissed with its close
  button, no overlay is in the document and the panel's timer is still pending.
\<close>

theorem dismissed_panel_timer_still_pending:
  "tooltips (run sample_fmt
       [Init, Harvest sample_payload, ShowId sample_layout ''1'', Close 0] new_instance) = []
   \<and> timers (run sample_fmt
       [Init, Harvest sample_payload, ShowId sample_layout ''1'', Close 0] new_instance) = [0]"
proof -
  have "run sample_fmt
       [Init, Harvest sample_payload, ShowId sample_layout ''1'', Close 0] new_instance
     = run sample_fmt [ShowId sample_layout ''1'', Close 0]
         (run sample_fmt [Init, Harvest sample_payload] new_instance)"
    using run_append[of sample_fmt "[Init, Harvest sample_payload]"] by simp
  then show ?thesis
    unfolding sample_state by (simp add: presenter_defs sample_layout_def)
qed

text \<open>
  The shorter script has no guard in the timeout's callback: the timer of the first
  panel, firing after the second panel replaced it, removes the second panel.
\<close>

lemma exe_stale_timer_removes_newer_panel:
  "map ref (tooltips (run_exe sample_fmt
       [Init_exe, Harvest_exe sample_payload, ShowCard (card_by_id ''1'') ''https://x/jobs/'',
        ShowCard (card_by_id ''2'') ''https://x/jobs/''] new_instance)) = [1]
   \<and> tooltips (run_exe sample_fmt
       [Init_exe, Harvest_exe sample_payload, ShowCard (card_by_id ''1'') ''https://x/jobs/'',
        ShowCard (card_by_id ''2'') ''https://x/jobs/'', Timeout_exe 0] new_instance) = []"
proof -
  have "run_exe sample_fmt ([Init_exe, Harvest_exe sample_payload] @ es) new_instance
     = run_exe sample_fmt es (run_exe sample_fmt [Init_exe, Harvest_exe sample_payload] new_instance)"
    for es
    by (rule run_exe_append)
  from this[of "[ShowCard (card_by_id ''1'') ''https://x/jobs/'', ShowCard (card_by_id ''2'') ''https://x/jobs/'']"]
    this[of "[ShowCard (card_by_id ''1'') ''https://x/jobs/'', ShowCard (card_by_id ''2'') ''https://x/jobs/'', Timeout_exe 0]"]
  show ?thesis
    unfolding sample_state_exe by (simp add: presenter_defs)
qed

subsection \<open>A missing layout anchor\<close>

lemma show_without_anchor:
  assumes "cache_get (JStr jobId) (jobData s) = Some jobInfo" and "anchor lay = None"
  shows "fst (showJobInsightsForId lay jobId s) = Some TypeError"
    and "timers (snd (showJobInsightsForId lay jobId s)) = timers s"
    and "\<exists>p. tooltips (snd (showJobInsightsForId lay jobId s)) = [p] \<and> position p = None"
  using assms
  by (simp_all add: showJobInsightsForId_def Let_def removeExistingTooltip_fields)

lemma show_with_anchor:
  "anchor lay = Some rect \<Longrightarrow> fst (showJobInsightsForId lay jobId s) = None"
  by (simp add: showJobInsightsForId_def Let_def split: option.splits)

text \<open>The shorter script looks up no anchor; its \<^verbatim>\<open>showJobInsights\<close> always returns.\<close>

lemma show_exe_returns: "fst (showJobInsights_exe jobCard loc s) = None"
  by (simp add: showJobInsights_exe_def Let_def split: option.splits)

text \<open>
  Claim C9. The claim says that rendering never throws and falls back to a default
  position when the layout anchor is missing. In the richer script, for an id that is
  in the cache and a document without the anchor, \<^verbatim>\<open>showJobInsightsForId\<close> throws a
  TypeError after it has appended the panel: the panel stays at the stylesheet's
  position and no auto-dismiss timer is armed.
\<close>

theorem missing_anchor_throws:
  "fst (showJobInsightsForId no_anchor_layout ''1''
         (run sample_fmt [Init, Harvest sample_payload] new_instance)) = Some TypeError
   \<and> map ref (tooltips (snd (showJobInsightsForId no_anchor_layout ''1''
         (run sample_fmt [Init, Harvest sample_payload] new_instance)))) = [0]
   \<and> timers (snd (showJobInsightsForId no_anchor_layout ''1''
         (run sample_fmt [Init, Harvest sample_payload] new_instance))) = []"
  unfolding sample_state by (simp add: presenter_defs no_anchor_layout_def)

subsection \<open>Initialization\<close>

lemma wrapper_inv_new: "wrapper_inv new_instance"
  by (simp add: wrapper_inv_def new_instance_def)

lemma wrapper_inv_step: "wrapper_inv s \<Longrightarrow> e \<noteq> Destroy \<Longrightarrow> wrapper_inv (step fmt e s)"
  by (cases e)
    (auto simp: wrapper_inv_def init_def interceptNetworkRequests_def setupJobClickHandlers_def
      observePageChanges_def show_other_fields on_timeout_def removeExistingTooltip_fields)

lemma wrapper_inv_step_exe: "wrapper_inv s \<Longrightarrow> wrapper_inv (step_exe fmt e s)"
  by (cases e)
    (auto simp: wrapper_inv_def init_exe_def interceptNetworkRequests_def
      setupJobClickHandlers_exe_def show_exe_other_fields on_timeout_exe_def
      removeExistingTooltip_exe_fields)

lemma wrapper_inv_run:
  "wrapper_inv s \<Longrightarrow> Destroy \<notin> set es \<Longrightarrow> wrapper_inv (run fmt es s)"
  by (induction es arbitrary: s) (auto simp: wrapper_inv_step)

lemma wrapper_inv_run_exe: "wrapper_inv s \<Longrightarrow> wrapper_inv (run_exe fmt es s)"
  by (induction es arbitrary: s) (auto simp: wrapper_inv_step_exe)

lemma wrapper_inv_bound: "wrapper_inv s \<Longrightarrow> fetch_wrappers s \<le> 1"
  by (simp add: wrapper_inv_def)

lemma step_keeps_wrappers: "e \<noteq> Init \<Longrightarrow> fetch_wrappers (step fmt e s) = fetch_wrappers s"
  by (cases e)
    (auto simp: destroy_def Let_def removeExistingTooltip_fields show_other_fields on_timeout_def
      split: option.splits)

lemma run_keeps_wrappers: "Init \<notin> set es \<Longrightarrow> fetch_wrappers (run fmt es s) = fetch_wrappers s"
  by (induction es arbitrary: s) (auto simp: step_keeps_wrappers)

text \<open>A run without \<^verbatim>\<open>destroy()\<close> is one in which no \<^verbatim>\<open>init()\<close> follows a \<^verbatim>\<open>destroy()\<close>.\<close>

lemma no_reinit_without_destroy: "Destroy \<notin> set evs \<Longrightarrow> no_reinit evs"
  unfolding no_reinit_def by (induction evs) auto

lemma no_reinit_single_wrapper:
  assumes "no_reinit evs"
  shows "fetch_wrappers (run fmt evs new_instance) \<le> 1"
proof -
  let ?pre = "takeWhile (\<lambda>e. e \<noteq> Destroy) evs"
  let ?post = "dropWhile (\<lambda>e. e \<noteq> Destroy) evs"
  have "Destroy \<notin> set ?pre" by (auto dest: set_takeWhileD)
  with wrapper_inv_new have "wrapper_inv (run fmt ?pre new_instance)" by (rule wrapper_inv_run)
  then have "fetch_wrappers (run fmt ?pre new_instance) \<le> 1" by (rule wrapper_inv_bound)
  moreover from assms have "Init \<notin> set ?post" by (simp add: no_reinit_def)
  then have "fetch_wrappers (run fmt ?post (run fmt ?pre new_instance))
      = fetch_wrappers (run fmt ?pre new_instance)"
    by (rule run_keeps_wrappers)
  moreover have "run fmt evs new_instance = run fmt ?post (run fmt ?pre new_instance)"
    using run_append[of fmt ?pre ?post new_instance] by simp
  ultimately show ?thesis by simp
qed

text \<open>
  Claim C5, as amended. \<^verbatim>\<open>init()\<close> on an initialized instance changes nothing, so
  \<^verbatim>\<open>init()\<close> twice is \<^verbatim>\<open>init()\<close> once. In every run of the richer script in which no
  \<^verbatim>\<open>init()\<close> comes after a \<^verbatim>\<open>destroy()\<close>, whatever else the run holds (harvests, shows,
  timeouts, dismissals, further calls of \<^verbatim>\<open>init()\<close> before and of \<^verbatim>\<open>destroy()\<close> after the
  first \<^verbatim>\<open>destroy()\<close>), and in every run of the shorter script (it has no \<^verbatim>\<open>destroy\<close>),
  at most one wrapper lies around the fetch primitive.
\<close>

theorem init_idempotent_single_wrapper:
  "(isInitialized s \<longrightarrow> init s = s \<and> init_exe s = s)
   \<and> init (init s) = init s
   \<and> init_exe (init_exe s) = init_exe s
   \<and> (no_reinit evs \<longrightarrow> fetch_wrappers (run fmt evs new_instance) \<le> 1)
   \<and> fetch_wrappers (run_exe fmt evs' new_instance) \<le> 1"
proof -
  have 1: "isInitialized s \<longrightarrow> init s = s \<and> init_exe s = s"
    by (simp add: init_def init_exe_def)
  have 2: "init (init s) = init s" "init_exe (init_exe s) = init_exe s"
    by (simp_all add: init_def init_exe_def)
  have 3: "no_reinit evs \<longrightarrow> fetch_wrappers (run fmt evs new_instance) \<le> 1"
    using no_reinit_single_wrapper[of evs fmt] by blast
  have 4: "fetch_wrappers (run_exe fmt evs' new_instance) \<le> 1"
    by (intro wrapper_inv_bound wrapper_inv_run_exe wrapper_inv_new)
  from 1 2 3 4 show ?thesis by blast
qed

theorem init_idempotent_single_wrapper_witness:
  "isInitialized (init new_instance)
   \<and> init (init new_instance) = init new_instance
   \<and> no_reinit [Init, Harvest sample_payload, Init, Destroy, ShowId sample_layout ''1'', Destroy]
   \<and> fetch_wrappers (run sample_fmt
        [Init, Harvest sample_payload, Init, Destroy, ShowId sample_layout ''1'', Destroy]
        new_instance) \<le> 1
   \<and> fetch_wrappers (run sample_fmt
        [Init, Harvest sample_payload, Init, Destroy, ShowId sample_layout ''1'', Destroy]
        new_instance) = 1
   \<and> no_reinit [Init, Harvest sample_payload, Init, ShowId sample_layout ''1'', Init]
   \<and> fetch_wrappers (run sample_fmt
        [Init, Harvest sample_payload, Init, ShowId sample_layout ''1'', Init] new_instance) \<le> 1
   \<and> \<not> no_reinit [Init, Destroy, Init]"
proof -
  note t = init_idempotent_single_wrapper[where s = "init new_instance" and fmt = sample_fmt
      and evs = "[Init, Harvest sample_payload, Init, Destroy, ShowId sample_layout ''1'', Destroy]"
      and evs' = "[]"]
  note u = init_idempotent_single_wrapper[where s = "init new_instance" and fmt = sample_fmt
      and evs = "[Init, Harvest sample_payload, Init, ShowId sample_layout ''1'', Init]"
      and evs' = "[]"]
  have h: "isInitialized (init new_instance)"
    "no_reinit [Init, Harvest sample_payload, Init, Destroy, ShowId sample_layout ''1'', Destroy]"
    "no_reinit [Init, Harvest sample_payload, Init, ShowId sample_layout ''1'', Init]"
    "\<not> no_reinit [Init, Destroy, Init]"
    by (simp_all add: init_def no_reinit_def)
  have "run sample_fmt
        [Init, Harvest sample_payload, Init, Destroy, ShowId sample_layout ''1'', Destroy]
        new_instance
      = run sample_fmt [Init, Destroy, ShowId sample_layout ''1'', Destroy]
          (run sample_fmt [Init, Harvest sample_payload] new_instance)"
    using run_append[of sample_fmt "[Init, Harvest sample_payload]"] by simp
  then have v: "fetch_wrappers (run sample_fmt
        [Init, Harvest sample_payload, Init, Destroy, ShowId sample_layout ''1'', Destroy]
        new_instance) = 1"
    unfolding sample_state
    by (simp add: init_def destroy_def removeExistingTooltip_def showJobInsightsForId_def)
  from t u h v show ?thesis by blast
qed

text \<open>
  Against claim C5 as stated: \<^verbatim>\<open>init()\<close>, \<^verbatim>\<open>destroy()\<close>, \<^verbatim>\<open>init()\<close> leaves two wrappers, one
  around the other.
\<close>

theorem reinit_stacks_wrappers:
  "fetch_wrappers (run sample_fmt [Init, Destroy, Init] new_instance) = 2"
  by (simp add: lifecycle_defs removeExistingTooltip_def)

subsection \<open>Teardown\<close>

text \<open>
  Claim C2, as amended. After \<^verbatim>\<open>destroy()\<close> the Record Cache is empty, no overlay is in
  the document, no panel is current, the initialized flag is reset and the page-change
  observer is not observing. The wrappers around the fetch primitive, the click
  listeners, the location observers and the pending timers are what they were before
  the call.
\<close>

theorem destroy_clears_instance:
  "jobData (destroy s) = []
   \<and> tooltips (destroy s) = []
   \<and> currentTooltip (destroy s) = None
   \<and> \<not> isInitialized (destroy s)
   \<and> observer (destroy s) \<noteq> Some True
   \<and> fetch_wrappers (destroy s) = fetch_wrappers s
   \<and> click_listeners (destroy s) = click_listeners s
   \<and> url_observers (destroy s) = url_observers s
   \<and> timers (destroy s) = timers s"
  by (simp add: destroy_def Let_def removeExistingTooltip_fields split: option.splits)

theorem destroy_clears_instance_witness:
  "jobData (destroy (run sample_fmt
      [Init, Harvest sample_payload, ShowId sample_layout ''1''] new_instance)) = []
   \<and> tooltips (destroy (run sample_fmt
      [Init, Harvest sample_payload, ShowId sample_layout ''1''] new_instance)) = []
   \<and> fetch_wrappers (destroy (run sample_fmt
      [Init, Harvest sample_payload, ShowId sample_layout ''1''] new_instance)) = 1
   \<and> timers (destroy (run sample_fmt
      [Init, Harvest sample_payload, ShowId sample_layout ''1''] new_instance)) = [0]"
proof -
  note t = destroy_clears_instance[where s = "run sample_fmt
      [Init, Harvest sample_payload, ShowId sample_layout ''1''] new_instance"]
  have "fetch_wrappers (run sample_fmt
      [Init, Harvest sample_payload, ShowId sample_layout ''1''] new_instance) = 1"
    "timers (run sample_fmt
      [Init, Harvest sample_payload, ShowId sample_layout ''1''] new_instance) = [0]"
    unfolding sample_shown_once sample_state by simp_all
  with t show ?thesis by simp
qed

text \<open>
  Against claim C2 as stated: after \<^verbatim>\<open>init()\<close> and \<^verbatim>\<open>destroy()\<close> one wrapper, one click
  listener and one location observer are still in place, where there were none before
  \<^verbatim>\<open>init()\<close>. The same call on the signature URL that leaves the cache empty through
  the page's own primitive fills it through \<^verbatim>\<open>window.fetch\<close> as \<^verbatim>\<open>destroy()\<close> left it.
\<close>

theorem destroy_leaves_wrapper:
  "fetch_wrappers new_instance = 0
   \<and> fetch_wrappers (destroy (init new_instance)) = 1
   \<and> click_listeners (destroy (init new_instance)) = 1
   \<and> url_observers (destroy (init new_instance)) = 1
   \<and> cache_get (JStr ''1'')
        (snd (snd (window_fetch (fetch_wrappers new_instance) sample_fmt (page_fetch sample_page)
           [sample_url] ((), jobData (destroy (init new_instance)))))) = None
   \<and> cache_get (JStr ''1'')
        (snd (snd (window_fetch (fetch_wrappers (destroy (init new_instance))) sample_fmt
           (page_fetch sample_page) [sample_url] ((), jobData (destroy (init new_instance))))))
       \<noteq> None"
proof -
  have a: "fetch_wrappers new_instance = 0" "fetch_wrappers (destroy (init new_instance)) = 1"
    "click_listeners (destroy (init new_instance)) = 1"
    "url_observers (destroy (init new_instance)) = 1"
    "jobData (destroy (init new_instance)) = []"
    by (simp_all add: lifecycle_defs removeExistingTooltip_def)
  have b: "window_fetch 0 sample_fmt (page_fetch sample_page) [sample_url] ((), [])
      = (Inr \<lparr>ok = True, body = Json sample_payload\<rparr>, ((), []))"
    by (simp add: page_fetch_def sample_page_def)
  have c: "cache_get (JStr ''1'') (snd (snd (window_fetch (Suc 0) sample_fmt (page_fetch sample_page)
      [sample_url] ((), [])))) \<noteq> None"
    by (simp add: wrapped_fetch_def fetch_wrapper_def page_fetch_def sample_defs harvest_defs)
  from a b c show ?thesis by simp
qed

end
